theory Spec2Isabelle
  imports Complex_Main
begin

section \<open>Numbers\<close>

text \<open>
  The script computes with JavaScript numbers, which are the numbers of IEEE 754 in the
  binary64 format. Its arithmetic is read in two ways below.

  In the exact reading a number is a real number and every operation is carried out
  exactly. The statements on the order of the calls, on the products of matrices and on
  the places of the cubes in the plane are made in this reading; its definitions carry
  the names of the script.

  In the binary64 reading a number is a real number too, and every sum, difference,
  product and quotient that the script computes is rounded to the nearest binary64
  number, a tie going to the even significand. The statements on the values that the
  script computes (the scale after wheel events, the spin angles after ticks, the
  coordinates of the cube of the last level, the number of cubes drawn) are made in this
  reading; its definitions carry the suffix \<open>64\<close>, and \<^verbatim>\<open>onCanvasWheel\<close> has this reading
  only. The overflow to an infinity, NaN and the sign of zero are not part of it, and the
  entries of the matrices of gl-matrix are exact in both readings.
\<close>

definition Math_round :: "real \<Rightarrow> real" where
  \<comment> \<open>\<^verbatim>\<open>Math.round\<close>: the nearest integer, a tie going towards plus infinity.\<close>
  "Math_round v = of_int \<lfloor>v + 1 / 2\<rfloor>"

subsection \<open>Rounding to binary64\<close>

definition round_half_even :: "real \<Rightarrow> int" where
  \<comment> \<open>the nearest integer, a tie going to the even one\<close>
  "round_half_even y = (let f = \<lfloor>y\<rfloor> in
      if y - of_int f < 1 / 2 then f
      else if 1 / 2 < y - of_int f then f + 1
      else if even f then f else f + 1)"

definition double :: "real \<Rightarrow> real" where
  \<comment> \<open>the binary64 number nearest to a real number: with \<open>e\<close> the exponent of the number, and
      no exponent below \<open>-1022\<close> (the subnormal numbers), the nearest multiple of
      \<open>2\<^bsup>e - 52\<^esup>\<close>\<close>
  "double x = (if x = 0 then 0
               else (let u = 2 powi (max \<lfloor>log 2 \<bar>x\<bar>\<rfloor> (- 1022) - 52)
                     in of_int (round_half_even (x / u)) * u))"

definition js_add :: "real \<Rightarrow> real \<Rightarrow> real" where
  \<comment> \<open>\<^verbatim>\<open>a + b\<close> on numbers\<close>
  "js_add a b = double (a + b)"

definition js_sub :: "real \<Rightarrow> real \<Rightarrow> real" where
  \<comment> \<open>\<^verbatim>\<open>a - b\<close>\<close>
  "js_sub a b = double (a - b)"

definition js_mul :: "real \<Rightarrow> real \<Rightarrow> real" where
  \<comment> \<open>\<^verbatim>\<open>a * b\<close>\<close>
  "js_mul a b = double (a * b)"

definition js_div :: "real \<Rightarrow> real \<Rightarrow> real" where
  \<comment> \<open>\<^verbatim>\<open>a / b\<close>\<close>
  "js_div a b = double (a / b)"

section \<open>The gl-matrix operations the script calls\<close>

text \<open>
  The script calls gl-matrix (\<^verbatim>\<open>mat4\<close>), a library that is not among the sources. Its
  operations are modelled after the library's implementation: a \<^verbatim>\<open>mat4\<close> is sixteen numbers
  in column-major order, here four columns of four entries, and every operation writes
  the columns of its result from the columns of its arguments. The operations read their
  arguments column by column before they write, so that the script's calls with an
  output that is also an input behave like the pure functions below.
\<close>

datatype vec4 = Vec4 real real real real

datatype mat4 = Mat4 (col0: vec4) (col1: vec4) (col2: vec4) (col3: vec4)

fun vec4_add :: "vec4 \<Rightarrow> vec4 \<Rightarrow> vec4" where
  "vec4_add (Vec4 a b c d) (Vec4 a' b' c' d') = Vec4 (a + a') (b + b') (c + c') (d + d')"

fun vec4_scale :: "real \<Rightarrow> vec4 \<Rightarrow> vec4" where
  "vec4_scale k (Vec4 a b c d) = Vec4 (k * a) (k * b) (k * c) (k * d)"

fun vec4_sub :: "vec4 \<Rightarrow> vec4 \<Rightarrow> vec4" where
  "vec4_sub (Vec4 a b c d) (Vec4 a' b' c' d') = Vec4 (a - a') (b - b') (c - c') (d - d')"

fun mat4_apply :: "mat4 \<Rightarrow> vec4 \<Rightarrow> vec4" where
  \<comment> \<open>the combination of the columns of a matrix with the entries of a vector\<close>
  "mat4_apply (Mat4 c0 c1 c2 c3) (Vec4 x y z w) =
     vec4_add (vec4_add (vec4_scale x c0) (vec4_scale y c1))
              (vec4_add (vec4_scale z c2) (vec4_scale w c3))"

definition mat4_create :: mat4 where
  \<comment> \<open>Modelled from the spec: \<^verbatim>\<open>mat4.create()\<close> and \<^verbatim>\<open>mat4.identity(out)\<close> of gl-matrix, which
      is not under src/; "Start from identity" (4.2, step 1).\<close>
  "mat4_create = Mat4 (Vec4 1 0 0 0) (Vec4 0 1 0 0) (Vec4 0 0 1 0) (Vec4 0 0 0 1)"

definition mat4_multiply :: "mat4 \<Rightarrow> mat4 \<Rightarrow> mat4" where
  \<comment> \<open>Modelled from the spec: \<^verbatim>\<open>mat4.multiply(out, a, b)\<close> of gl-matrix, which is not under
      src/; the product \<open>a b\<close> ("left-multiply by", 4.2 step 3 and 4.3): column \<open>j\<close> of the
      result combines the columns of \<open>a\<close> with the entries of column \<open>j\<close> of \<open>b\<close>.\<close>
  "mat4_multiply a b =
     Mat4 (mat4_apply a (col0 b)) (mat4_apply a (col1 b))
          (mat4_apply a (col2 b)) (mat4_apply a (col3 b))"

definition mat4_scale :: "mat4 \<Rightarrow> real \<times> real \<times> real \<Rightarrow> mat4" where
  \<comment> \<open>Modelled from the spec: \<^verbatim>\<open>mat4.scale(out, a, v)\<close> of gl-matrix, which is not under src/;
      "Apply uniform scale" (4.2 step 2): the first three columns are multiplied by the
      entries of \<open>v\<close>.\<close>
  "mat4_scale a v = (case v of (x, y, z) \<Rightarrow>
     Mat4 (vec4_scale x (col0 a)) (vec4_scale y (col1 a)) (vec4_scale z (col2 a)) (col3 a))"

definition mat4_translate :: "mat4 \<Rightarrow> real \<times> real \<times> real \<Rightarrow> mat4" where
  \<comment> \<open>Modelled from the spec: \<^verbatim>\<open>mat4.translate(out, a, v)\<close> of gl-matrix, which is not under
      src/; "Translate by" (4.2 steps 4 and 6): the last column becomes
      \<open>x c0 + y c1 + z c2 + c3\<close>.\<close>
  "mat4_translate a v = (case v of (x, y, z) \<Rightarrow>
     Mat4 (col0 a) (col1 a) (col2 a)
          (vec4_add (vec4_add (vec4_scale x (col0 a)) (vec4_scale y (col1 a)))
                    (vec4_add (vec4_scale z (col2 a)) (col3 a))))"

definition mat4_rotateX :: "mat4 \<Rightarrow> real \<Rightarrow> mat4" where
  \<comment> \<open>Modelled from the spec: \<^verbatim>\<open>mat4.rotateX(out, a, rad)\<close> of gl-matrix, which is not under
      src/; "Rotate about X" (4.2 step 5).\<close>
  "mat4_rotateX a rad = (let s = sin rad; c = cos rad in
     Mat4 (col0 a)
          (vec4_add (vec4_scale c (col1 a)) (vec4_scale s (col2 a)))
          (vec4_sub (vec4_scale c (col2 a)) (vec4_scale s (col1 a)))
          (col3 a))"

definition mat4_rotateY :: "mat4 \<Rightarrow> real \<Rightarrow> mat4" where
  \<comment> \<open>Modelled from the spec: \<^verbatim>\<open>mat4.rotateY(out, a, rad)\<close> of gl-matrix, which is not under
      src/; "then Y" (4.2 step 5).\<close>
  "mat4_rotateY a rad = (let s = sin rad; c = cos rad in
     Mat4 (vec4_sub (vec4_scale c (col0 a)) (vec4_scale s (col2 a)))
          (col1 a)
          (vec4_add (vec4_scale s (col0 a)) (vec4_scale c (col2 a)))
          (col3 a))"

definition mat4_rotateZ :: "mat4 \<Rightarrow> real \<Rightarrow> mat4" where
  \<comment> \<open>Modelled from the spec: \<^verbatim>\<open>mat4.rotateZ(out, a, rad)\<close> of gl-matrix, which is not under
      src/; "then Z" (4.2 step 5).\<close>
  "mat4_rotateZ a rad = (let s = sin rad; c = cos rad in
     Mat4 (vec4_add (vec4_scale c (col0 a)) (vec4_scale s (col1 a)))
          (vec4_sub (vec4_scale c (col1 a)) (vec4_scale s (col0 a)))
          (col2 a)
          (col3 a))"

definition mat4_rotate :: "mat4 \<Rightarrow> real \<Rightarrow> real \<times> real \<times> real \<Rightarrow> mat4 option" where
  \<comment> \<open>Modelled from the spec: \<^verbatim>\<open>mat4.rotate(out, a, rad, axis)\<close> of gl-matrix, which is not
      under src/; "rotates by ... about the Y axis composed with ... about the X axis"
      (4.3). The library normalises the axis and returns \<^verbatim>\<open>null\<close>, leaving \<open>out\<close> as it
      was, when the axis is shorter than its \<^verbatim>\<open>EPSILON\<close> = 0.000001.\<close>
  "mat4_rotate a rad axis = (case axis of (x0, y0, z0) \<Rightarrow>
     (let len = sqrt (x0 * x0 + y0 * y0 + z0 * z0) in
      if len < 1 / 1000000 then None
      else
       (let x = x0 * (1 / len); y = y0 * (1 / len); z = z0 * (1 / len);
            s = sin rad; c = cos rad; t = 1 - c;
            b00 = x * x * t + c; b01 = y * x * t + z * s; b02 = z * x * t - y * s;
            b10 = x * y * t - z * s; b11 = y * y * t + c; b12 = z * y * t + x * s;
            b20 = x * z * t + y * s; b21 = y * z * t - x * s; b22 = z * z * t + c
        in Some (Mat4
             (vec4_add (vec4_add (vec4_scale b00 (col0 a)) (vec4_scale b01 (col1 a)))
                       (vec4_scale b02 (col2 a)))
             (vec4_add (vec4_add (vec4_scale b10 (col0 a)) (vec4_scale b11 (col1 a)))
                       (vec4_scale b12 (col2 a)))
             (vec4_add (vec4_add (vec4_scale b20 (col0 a)) (vec4_scale b21 (col1 a)))
                       (vec4_scale b22 (col2 a)))
             (col3 a)))))"

fun mat4_transpose :: "mat4 \<Rightarrow> mat4" where
  \<comment> \<open>Modelled from the spec: \<^verbatim>\<open>mat4.transpose(out, a)\<close> of gl-matrix, which is not under
      src/; the "normal matrix" of section 6.\<close>
  "mat4_transpose (Mat4 (Vec4 a00 a01 a02 a03) (Vec4 a10 a11 a12 a13)
                        (Vec4 a20 a21 a22 a23) (Vec4 a30 a31 a32 a33)) =
     Mat4 (Vec4 a00 a10 a20 a30) (Vec4 a01 a11 a21 a31)
          (Vec4 a02 a12 a22 a32) (Vec4 a03 a13 a23 a33)"

definition mat4_invert :: "mat4 \<Rightarrow> mat4 option" where
  \<comment> \<open>Modelled from the spec: \<^verbatim>\<open>mat4.invert(out, a)\<close> of gl-matrix, which is not under src/;
      the "normal matrix" of section 6. The library returns \<^verbatim>\<open>null\<close> and leaves \<open>out\<close> as
      it was when the determinant is zero.\<close>
  "mat4_invert a = (case a of
     Mat4 (Vec4 a00 a01 a02 a03) (Vec4 a10 a11 a12 a13)
          (Vec4 a20 a21 a22 a23) (Vec4 a30 a31 a32 a33) \<Rightarrow>
     (let b00 = a00 * a11 - a01 * a10; b01 = a00 * a12 - a02 * a10;
          b02 = a00 * a13 - a03 * a10; b03 = a01 * a12 - a02 * a11;
          b04 = a01 * a13 - a03 * a11; b05 = a02 * a13 - a03 * a12;
          b06 = a20 * a31 - a21 * a30; b07 = a20 * a32 - a22 * a30;
          b08 = a20 * a33 - a23 * a30; b09 = a21 * a32 - a22 * a31;
          b10 = a21 * a33 - a23 * a31; b11 = a22 * a33 - a23 * a32;
          det = b00 * b11 - b01 * b10 + b02 * b09 + b03 * b08 - b04 * b07 + b05 * b06
      in if det = 0 then None
         else
          (let d = 1 / det in
           Some (Mat4
             (Vec4 ((a11 * b11 - a12 * b10 + a13 * b09) * d)
                   ((a02 * b10 - a01 * b11 - a03 * b09) * d)
                   ((a31 * b05 - a32 * b04 + a33 * b03) * d)
                   ((a22 * b04 - a21 * b05 - a23 * b03) * d))
             (Vec4 ((a12 * b08 - a10 * b11 - a13 * b07) * d)
                   ((a00 * b11 - a02 * b08 + a03 * b07) * d)
                   ((a32 * b02 - a30 * b05 - a33 * b01) * d)
                   ((a20 * b05 - a22 * b02 + a23 * b01) * d))
             (Vec4 ((a10 * b10 - a11 * b08 + a13 * b06) * d)
                   ((a01 * b08 - a00 * b10 - a03 * b06) * d)
                   ((a30 * b04 - a31 * b02 + a33 * b00) * d)
                   ((a21 * b02 - a20 * b04 - a23 * b00) * d))
             (Vec4 ((a11 * b07 - a10 * b09 - a12 * b06) * d)
                   ((a00 * b09 - a01 * b07 + a02 * b06) * d)
                   ((a31 * b01 - a30 * b03 - a32 * b00) * d)
                   ((a20 * b03 - a21 * b01 + a22 * b00) * d))))))"

subsection \<open>The matrices of the transformations\<close>

definition Scale :: "real \<Rightarrow> real \<Rightarrow> real \<Rightarrow> mat4" where
  "Scale x y z = Mat4 (Vec4 x 0 0 0) (Vec4 0 y 0 0) (Vec4 0 0 z 0) (Vec4 0 0 0 1)"

definition Translate :: "real \<Rightarrow> real \<Rightarrow> real \<Rightarrow> mat4" where
  "Translate x y z = Mat4 (Vec4 1 0 0 0) (Vec4 0 1 0 0) (Vec4 0 0 1 0) (Vec4 x y z 1)"

definition RotX :: "real \<Rightarrow> mat4" where
  "RotX t = Mat4 (Vec4 1 0 0 0) (Vec4 0 (cos t) (sin t) 0) (Vec4 0 (- sin t) (cos t) 0)
                 (Vec4 0 0 0 1)"

definition RotY :: "real \<Rightarrow> mat4" where
  "RotY t = Mat4 (Vec4 (cos t) 0 (- sin t) 0) (Vec4 0 1 0 0) (Vec4 (sin t) 0 (cos t) 0)
                 (Vec4 0 0 0 1)"

definition RotZ :: "real \<Rightarrow> mat4" where
  "RotZ t = Mat4 (Vec4 (cos t) (sin t) 0 0) (Vec4 (- sin t) (cos t) 0 0) (Vec4 0 0 1 0)
                 (Vec4 0 0 0 1)"

text \<open>Matrices under \<^verbatim>\<open>mat4.multiply\<close> form a monoid, written \<open>a * b\<close> and \<open>1\<close> below.\<close>

instantiation mat4 :: monoid_mult
begin

definition one_mat4 :: mat4 where
  "one_mat4 = mat4_create"

definition times_mat4 :: "mat4 \<Rightarrow> mat4 \<Rightarrow> mat4" where
  "times_mat4 a b = mat4_multiply a b"

instance
proof
  fix a b c :: mat4
  have apply_multiply: "mat4_apply (mat4_multiply p q) v = mat4_apply p (mat4_apply q v)"
    for p q v
  proof (cases p)
    case (Mat4 p0 p1 p2 p3)
    show ?thesis
    proof (cases q)
      fix q0 q1 q2 q3 assume q: "q = Mat4 q0 q1 q2 q3"
      show ?thesis
        unfolding Mat4 q mat4_multiply_def
        by (cases v; cases p0; cases p1; cases p2; cases p3;
            cases q0; cases q1; cases q2; cases q3) (simp add: algebra_simps)
    qed
  qed
  show "a * b * c = a * (b * c)"
    unfolding times_mat4_def
    by (simp add: mat4_multiply_def apply_multiply [unfolded mat4_multiply_def])
  show "1 * a = a"
    unfolding times_mat4_def one_mat4_def
    by (cases a; cases "col0 a"; cases "col1 a"; cases "col2 a"; cases "col3 a")
       (simp add: mat4_multiply_def mat4_create_def)
  show "a * 1 = a"
    unfolding times_mat4_def one_mat4_def
    by (cases a; cases "col0 a"; cases "col1 a"; cases "col2 a"; cases "col3 a")
       (simp add: mat4_multiply_def mat4_create_def)
qed

end

subsection \<open>The adjugate, for the proof that \<^verbatim>\<open>mat4.invert\<close> inverts\<close>

fun mat4_determinant :: "mat4 \<Rightarrow> real" where
  "mat4_determinant (Mat4 (Vec4 a00 a01 a02 a03) (Vec4 a10 a11 a12 a13)
                          (Vec4 a20 a21 a22 a23) (Vec4 a30 a31 a32 a33)) =
     (let b00 = a00 * a11 - a01 * a10; b01 = a00 * a12 - a02 * a10;
          b02 = a00 * a13 - a03 * a10; b03 = a01 * a12 - a02 * a11;
          b04 = a01 * a13 - a03 * a11; b05 = a02 * a13 - a03 * a12;
          b06 = a20 * a31 - a21 * a30; b07 = a20 * a32 - a22 * a30;
          b08 = a20 * a33 - a23 * a30; b09 = a21 * a32 - a22 * a31;
          b10 = a21 * a33 - a23 * a31; b11 = a22 * a33 - a23 * a32
      in b00 * b11 - b01 * b10 + b02 * b09 + b03 * b08 - b04 * b07 + b05 * b06)"

definition mat4_adjugate :: "mat4 \<Rightarrow> mat4" where
  "mat4_adjugate a = (case a of
     Mat4 (Vec4 a00 a01 a02 a03) (Vec4 a10 a11 a12 a13)
          (Vec4 a20 a21 a22 a23) (Vec4 a30 a31 a32 a33) \<Rightarrow>
     (let b00 = a00 * a11 - a01 * a10; b01 = a00 * a12 - a02 * a10;
          b02 = a00 * a13 - a03 * a10; b03 = a01 * a12 - a02 * a11;
          b04 = a01 * a13 - a03 * a11; b05 = a02 * a13 - a03 * a12;
          b06 = a20 * a31 - a21 * a30; b07 = a20 * a32 - a22 * a30;
          b08 = a20 * a33 - a23 * a30; b09 = a21 * a32 - a22 * a31;
          b10 = a21 * a33 - a23 * a31; b11 = a22 * a33 - a23 * a32
      in Mat4
             (Vec4 ((a11 * b11 - a12 * b10 + a13 * b09))
                   ((a02 * b10 - a01 * b11 - a03 * b09))
                   ((a31 * b05 - a32 * b04 + a33 * b03))
                   ((a22 * b04 - a21 * b05 - a23 * b03)))
             (Vec4 ((a12 * b08 - a10 * b11 - a13 * b07))
                   ((a00 * b11 - a02 * b08 + a03 * b07))
                   ((a32 * b02 - a30 * b05 - a33 * b01))
                   ((a20 * b05 - a22 * b02 + a23 * b01)))
             (Vec4 ((a10 * b10 - a11 * b08 + a13 * b06))
                   ((a01 * b08 - a00 * b10 - a03 * b06))
                   ((a30 * b04 - a31 * b02 + a33 * b00))
                   ((a21 * b02 - a20 * b04 - a23 * b00)))
             (Vec4 ((a11 * b07 - a10 * b09 - a12 * b06))
                   ((a00 * b09 - a01 * b07 + a02 * b06))
                   ((a31 * b01 - a30 * b03 - a32 * b00))
                   ((a20 * b03 - a21 * b01 + a22 * b00)))))"

definition mat4_scalar :: "real \<Rightarrow> mat4 \<Rightarrow> mat4" where
  "mat4_scalar k a = Mat4 (vec4_scale k (col0 a)) (vec4_scale k (col1 a))
                          (vec4_scale k (col2 a)) (vec4_scale k (col3 a))"

section \<open>The state of the script\<close>

text \<open>The object \<^verbatim>\<open>state\<close> of the script. The two mouse coordinates start as \<^verbatim>\<open>null\<close>.\<close>

record state =
  canvasSize :: real
  xRotationSpeed :: real
  yRotationSpeed :: real
  zRotationSpeed :: real
  xRotationAngle :: real
  yRotationAngle :: real
  zRotationAngle :: real
  mouseDown :: bool
  lastMouseX :: "real option"
  lastMouseY :: "real option"
  dragSensitivity :: real
  canvasRotationMatrix :: mat4
  canvasScale :: real

text \<open>
  What the script does to the world outside its variables, in the order in which it does
  it: the calls to the WebGL context, the request for the next frame, and (so that their
  place among the calls can be stated) the three assignments of \<^verbatim>\<open>animate\<close> to the spin
  angles. Calls that only query the context (\<^verbatim>\<open>getAttribLocation\<close>,
  \<^verbatim>\<open>getUniformLocation\<close>) are left out.
\<close>

datatype texture_unit = TEXTURE0 | TEXTURE1

datatype texture_object = texture | normalMap

datatype buffer_object = vertexBuffer | textureCoordBuffer

datatype attribute = aPosition | aTextureCoord

datatype uniform = uModelMatrix | uViewMatrix | uProjectionMatrix | uNormalMatrix

datatype buffer_bit = COLOR_BUFFER_BIT | DEPTH_BUFFER_BIT

datatype axis = X | Y | Z

datatype effect =
    ActiveTexture texture_unit
  | BindTexture texture_object
  | BindBuffer buffer_object
  | BufferData "real list"
  | EnableVertexAttribArray attribute
  | VertexAttribPointer attribute nat
  | UniformMatrix4fv uniform mat4
  | DrawArrays real real
  | ClearColor real real real real
  | Clear "buffer_bit list"
  | AngleUpdate axis real
  | RequestAnimationFrame

text \<open>
  The variables of the script that the modelled functions read and write: the object
  \<^verbatim>\<open>state\<close>, the three global matrices, the value of the step slider (a numeric string in
  the script, which \<^verbatim>\<open>drawCarpet\<close> compares and subtracts as a number), and the effects so
  far.
\<close>

record world =
  state :: state
  modelMatrix :: mat4
  viewMatrix :: mat4
  projectionMatrix :: mat4
  slider_value :: int
  effects :: "effect list"

definition initial_state :: state where
  "initial_state =
     \<lparr>canvasSize = 2, xRotationSpeed = 0, yRotationSpeed = 0, zRotationSpeed = 0,
      xRotationAngle = 0, yRotationAngle = 0, zRotationAngle = 0, mouseDown = False,
      lastMouseX = None, lastMouseY = None, dragSensitivity = 1 / 100,
      canvasRotationMatrix = mat4_create, canvasScale = 1\<rparr>"

definition initial_world :: "int \<Rightarrow> world" where
  \<comment> \<open>the variables when \<^verbatim>\<open>animate\<close> is first called, for a given value of the slider\<close>
  "initial_world v =
     \<lparr>state = initial_state, modelMatrix = mat4_create, viewMatrix = mat4_create,
      projectionMatrix = mat4_create, slider_value = v, effects = []\<rparr>"

section \<open>Coordinates and vertices\<close>

definition createCubeTextureCoordinates :: "real list" where
  \<comment> \<open>the same six pairs for each of the six faces\<close>
  "createCubeTextureCoordinates =
     concat (replicate 6 [0, 0, 1, 0, 1, 1, 0, 0, 1, 1, 0, 1])"

definition createCubeVertices :: "real \<Rightarrow> real \<Rightarrow> real \<Rightarrow> real \<Rightarrow> real list" where
  "createCubeVertices x y z size' = (let d = size' / 2 in
     [x - d, y - d, z + d,   x + d, y - d, z + d,   x + d, y + d, z + d,
      x - d, y - d, z + d,   x + d, y + d, z + d,   x - d, y + d, z + d,

      x - d, y - d, z - d,   x + d, y - d, z - d,   x + d, y + d, z - d,
      x - d, y - d, z - d,   x + d, y + d, z - d,   x - d, y + d, z - d,

      x - d, y + d, z + d,   x + d, y + d, z + d,   x + d, y + d, z - d,
      x - d, y + d, z + d,   x + d, y + d, z - d,   x - d, y + d, z - d,

      x - d, y - d, z + d,   x + d, y - d, z + d,   x + d, y - d, z - d,
      x - d, y - d, z + d,   x + d, y - d, z - d,   x - d, y - d, z - d,

      x + d, y - d, z + d,   x + d, y - d, z - d,   x + d, y + d, z - d,
      x + d, y - d, z + d,   x + d, y + d, z - d,   x + d, y + d, z + d,

      x - d, y - d, z + d,   x - d, y - d, z - d,   x - d, y + d, z - d,
      x - d, y - d, z + d,   x - d, y + d, z - d,   x - d, y + d, z + d])"

definition createCubeVertices64 :: "real \<Rightarrow> real \<Rightarrow> real \<Rightarrow> real \<Rightarrow> real list" where
  \<comment> \<open>\<^verbatim>\<open>createCubeVertices\<close> in the binary64 reading\<close>
  "createCubeVertices64 x y z size' = (let d = js_div size' 2 in
     [js_sub x d, js_sub y d, js_add z d,   js_add x d, js_sub y d, js_add z d,
      js_add x d, js_add y d, js_add z d,
      js_sub x d, js_sub y d, js_add z d,   js_add x d, js_add y d, js_add z d,
      js_sub x d, js_add y d, js_add z d,

      js_sub x d, js_sub y d, js_sub z d,   js_add x d, js_sub y d, js_sub z d,
      js_add x d, js_add y d, js_sub z d,
      js_sub x d, js_sub y d, js_sub z d,   js_add x d, js_add y d, js_sub z d,
      js_sub x d, js_add y d, js_sub z d,

      js_sub x d, js_add y d, js_add z d,   js_add x d, js_add y d, js_add z d,
      js_add x d, js_add y d, js_sub z d,
      js_sub x d, js_add y d, js_add z d,   js_add x d, js_add y d, js_sub z d,
      js_sub x d, js_add y d, js_sub z d,

      js_sub x d, js_sub y d, js_add z d,   js_add x d, js_sub y d, js_add z d,
      js_add x d, js_sub y d, js_sub z d,
      js_sub x d, js_sub y d, js_add z d,   js_add x d, js_sub y d, js_sub z d,
      js_sub x d, js_sub y d, js_sub z d,

      js_add x d, js_sub y d, js_add z d,   js_add x d, js_sub y d, js_sub z d,
      js_add x d, js_add y d, js_sub z d,
      js_add x d, js_sub y d, js_add z d,   js_add x d, js_add y d, js_sub z d,
      js_add x d, js_add y d, js_add z d,

      js_sub x d, js_sub y d, js_add z d,   js_sub x d, js_sub y d, js_sub z d,
      js_sub x d, js_add y d, js_sub z d,
      js_sub x d, js_sub y d, js_add z d,   js_sub x d, js_add y d, js_sub z d,
      js_sub x d, js_add y d, js_add z d])"

section \<open>Drawing\<close>

definition drawCube_normalMatrix :: "mat4 \<Rightarrow> mat4" where
  \<comment> \<open>lines 354 to 356 of \<^verbatim>\<open>drawCube\<close>: a fresh identity matrix, overwritten with the inverse
      of the global \<^verbatim>\<open>modelMatrix\<close> unless that is singular, then transposed\<close>
  "drawCube_normalMatrix m =
     mat4_transpose (case mat4_invert m of None \<Rightarrow> mat4_create | Some n \<Rightarrow> n)"

definition drawCube_center :: "real list \<Rightarrow> (real \<times> real \<times> real) option" where
  \<comment> \<open>lines 360 to 373 of \<^verbatim>\<open>drawCube\<close>. A read beyond the end of the array is
      \<^verbatim>\<open>undefined\<close> and makes the centre NaN, for which this model has no number:
      the result is \<open>None\<close> then.\<close>
  "drawCube_center vertices =
     (if length vertices < 27 then None
      else
       (let x1 = Math_round (vertices ! 0 * 10000) / 10000;
            y1 = Math_round (vertices ! 1 * 10000) / 10000;
            z1 = Math_round (vertices ! 2 * 10000) / 10000;
            x2 = Math_round (vertices ! 24 * 10000) / 10000;
            y2 = Math_round (vertices ! 25 * 10000) / 10000;
            z2 = Math_round (vertices ! 26 * 10000) / 10000;
            centerX = (x1 + x2) / 2;
            centerY = (y1 + y2) / 2;
            centerZ = (z1 + z2) / 2
        in Some (centerX, centerY, centerZ)))"

definition drawCube_modelMatrix :: "state \<Rightarrow> real \<times> real \<times> real \<Rightarrow> mat4" where
  \<comment> \<open>lines 375 to 393 of \<^verbatim>\<open>drawCube\<close>, each call writing \<^verbatim>\<open>modelMatrix\<close> anew\<close>
  "drawCube_modelMatrix s center = (case center of (centerX, centerY, centerZ) \<Rightarrow>
     (let m = mat4_create;
          m = mat4_scale m (canvasScale s, canvasScale s, canvasScale s);
          m = mat4_multiply (canvasRotationMatrix s) m;
          m = mat4_translate m (centerX, centerY, centerZ);
          m = mat4_rotateX m (xRotationAngle s);
          m = mat4_rotateY m (yRotationAngle s);
          m = mat4_rotateZ m (zRotationAngle s);
          m = mat4_translate m (- centerX, - centerY, - centerZ)
      in m))"

definition drawCube_calls :: "real list \<Rightarrow> mat4 \<Rightarrow> mat4 \<Rightarrow> world \<Rightarrow> effect list" where
  \<comment> \<open>the calls of \<^verbatim>\<open>drawCube\<close> to the WebGL context, in their order, for the normal matrix
      and the model matrix that it has computed\<close>
  "drawCube_calls vertices normalMatrix m w =
     (let textureCoordinates = createCubeTextureCoordinates in
      [ActiveTexture TEXTURE1, BindTexture normalMap,
       ActiveTexture TEXTURE0, BindTexture texture,
       BindBuffer vertexBuffer, BufferData vertices,
       EnableVertexAttribArray aPosition, VertexAttribPointer aPosition 3,
       EnableVertexAttribArray aTextureCoord,
       BindBuffer textureCoordBuffer, BufferData textureCoordinates,
       VertexAttribPointer aTextureCoord 2,
       UniformMatrix4fv uNormalMatrix normalMatrix,
       UniformMatrix4fv uModelMatrix m,
       UniformMatrix4fv uViewMatrix (viewMatrix w),
       UniformMatrix4fv uProjectionMatrix (projectionMatrix w),
       DrawArrays 0 (real (length vertices) / 3)])"

definition drawCube :: "real list \<Rightarrow> world \<Rightarrow> world option" where
  \<comment> \<open>The normal matrix is computed, and sent, from the \<^verbatim>\<open>modelMatrix\<close> that the call finds;
      only then is \<^verbatim>\<open>modelMatrix\<close> set to the identity and built for this cube.\<close>
  "drawCube vertices w =
     (let normalMatrix = drawCube_normalMatrix (modelMatrix w)
      in case drawCube_center vertices of
           None \<Rightarrow> None
         | Some center \<Rightarrow>
            (let m = drawCube_modelMatrix (state w) center
             in Some (w\<lparr>modelMatrix := m,
                       effects := effects w @ drawCube_calls vertices normalMatrix m w\<rparr>)))"

definition drawCube_center64 :: "real list \<Rightarrow> (real \<times> real \<times> real) option" where
  \<comment> \<open>lines 360 to 373 of \<^verbatim>\<open>drawCube\<close> in the binary64 reading. \<^verbatim>\<open>Math.round\<close> gives an
      integer, which is a binary64 number for the sizes at hand.\<close>
  "drawCube_center64 vertices =
     (if length vertices < 27 then None
      else
       (let x1 = js_div (Math_round (js_mul (vertices ! 0) 10000)) 10000;
            y1 = js_div (Math_round (js_mul (vertices ! 1) 10000)) 10000;
            z1 = js_div (Math_round (js_mul (vertices ! 2) 10000)) 10000;
            x2 = js_div (Math_round (js_mul (vertices ! 24) 10000)) 10000;
            y2 = js_div (Math_round (js_mul (vertices ! 25) 10000)) 10000;
            z2 = js_div (Math_round (js_mul (vertices ! 26) 10000)) 10000;
            centerX = js_div (js_add x1 x2) 2;
            centerY = js_div (js_add y1 y2) 2;
            centerZ = js_div (js_add z1 z2) 2
        in Some (centerX, centerY, centerZ)))"

definition drawCube64 :: "real list \<Rightarrow> world \<Rightarrow> world option" where
  \<comment> \<open>\<^verbatim>\<open>drawCube\<close> with the centre of the binary64 reading\<close>
  "drawCube64 vertices w =
     (let normalMatrix = drawCube_normalMatrix (modelMatrix w)
      in case drawCube_center64 vertices of
           None \<Rightarrow> None
         | Some center \<Rightarrow>
            (let m = drawCube_modelMatrix (state w) center
             in Some (w\<lparr>modelMatrix := m,
                       effects := effects w @ drawCube_calls vertices normalMatrix m w\<rparr>)))"

function drawCarpet :: "real \<Rightarrow> real \<Rightarrow> real \<Rightarrow> int \<Rightarrow> world \<Rightarrow> world option" where
  "drawCarpet x y size' iterations w =
     (let newSize = size' / 3 in
      fold (\<lambda>i. fold (\<lambda>j r.
              case r of
                None \<Rightarrow> None
              | Some w' \<Rightarrow>
                 (let newX = x + real i * newSize;
                      newY = y + real j * newSize
                  in if i = 1 \<and> j = 1 then
                       drawCube (createCubeVertices (newX + newSize / 2) (newY + newSize / 2)
                                   (newSize / 2) newSize) w'
                     else if iterations > 1 then
                       drawCarpet newX newY newSize (iterations - 1) w'
                     else Some w'))
              [0..<3])
        [0..<3] (Some w))"
  by pat_completeness auto
termination
  by (relation "measure (\<lambda>(x, y, size', iterations, w). nat iterations)") auto

function drawCarpet64 :: "real \<Rightarrow> real \<Rightarrow> real \<Rightarrow> int \<Rightarrow> world \<Rightarrow> world option" where
  \<comment> \<open>\<^verbatim>\<open>drawCarpet\<close> in the binary64 reading\<close>
  "drawCarpet64 x y size' iterations w =
     (let newSize = js_div size' 3 in
      fold (\<lambda>i. fold (\<lambda>j r.
              case r of
                None \<Rightarrow> None
              | Some w' \<Rightarrow>
                 (let newX = js_add x (js_mul (real i) newSize);
                      newY = js_add y (js_mul (real j) newSize)
                  in if i = 1 \<and> j = 1 then
                       drawCube64 (createCubeVertices64 (js_add newX (js_div newSize 2))
                                     (js_add newY (js_div newSize 2))
                                     (js_div newSize 2) newSize) w'
                     else if iterations > 1 then
                       drawCarpet64 newX newY newSize (iterations - 1) w'
                     else Some w'))
              [0..<3])
        [0..<3] (Some w))"
  by pat_completeness auto
termination
  by (relation "measure (\<lambda>(x, y, size', iterations, w). nat iterations)") auto

text \<open>
  The cubes of a carpet: the arguments \<open>(x, y, z, size)\<close> of the calls of
  \<^verbatim>\<open>createCubeVertices\<close> that \<^verbatim>\<open>drawCarpet\<close> makes, in the order of the calls.
\<close>

type_synonym cube = "real \<times> real \<times> real \<times> real"

function carpet_cubes :: "real \<Rightarrow> real \<Rightarrow> real \<Rightarrow> int \<Rightarrow> cube list" where
  "carpet_cubes x y size' iterations =
     (let newSize = size' / 3 in
      concat (map (\<lambda>i. concat (map (\<lambda>j.
              (let newX = x + real i * newSize;
                   newY = y + real j * newSize
               in if i = 1 \<and> j = 1 then
                    [(newX + newSize / 2, newY + newSize / 2, newSize / 2, newSize)]
                  else if iterations > 1 then
                    carpet_cubes newX newY newSize (iterations - 1)
                  else []))
              [0..<3]))
        [0..<3]))"
  by pat_completeness auto
termination
  by (relation "measure (\<lambda>(x, y, size', iterations). nat iterations)") auto

fun drawCubes :: "cube list \<Rightarrow> world \<Rightarrow> world option" where
  \<comment> \<open>one call of \<^verbatim>\<open>drawCube\<close> after the other\<close>
  "drawCubes [] w = Some w"
| "drawCubes ((x, y, z, s) # cs) w =
     (case drawCube (createCubeVertices x y z s) w of
        None \<Rightarrow> None
      | Some w' \<Rightarrow> drawCubes cs w')"

definition animate :: "world \<Rightarrow> world option" where
  "animate w =
     (let w = w\<lparr>effects := effects w @
                  [ClearColor 0 0 0 1, Clear [COLOR_BUFFER_BIT, DEPTH_BUFFER_BIT]]\<rparr>;
          a = xRotationAngle (state w) + xRotationSpeed (state w) / 200;
          w = w\<lparr>state := (state w)\<lparr>xRotationAngle := a\<rparr>,
                effects := effects w @ [AngleUpdate X a]\<rparr>;
          a = yRotationAngle (state w) + yRotationSpeed (state w) / 200;
          w = w\<lparr>state := (state w)\<lparr>yRotationAngle := a\<rparr>,
                effects := effects w @ [AngleUpdate Y a]\<rparr>;
          a = zRotationAngle (state w) + zRotationSpeed (state w) / 200;
          w = w\<lparr>state := (state w)\<lparr>zRotationAngle := a\<rparr>,
                effects := effects w @ [AngleUpdate Z a]\<rparr>
      in case drawCarpet (- 1) (- 1) (canvasSize (state w)) (slider_value w) w of
           None \<Rightarrow> None
         | Some w \<Rightarrow> Some (w\<lparr>effects := effects w @ [RequestAnimationFrame]\<rparr>))"

definition animate64 :: "world \<Rightarrow> world option" where
  \<comment> \<open>\<^verbatim>\<open>animate\<close> in the binary64 reading\<close>
  "animate64 w =
     (let w = w\<lparr>effects := effects w @
                  [ClearColor 0 0 0 1, Clear [COLOR_BUFFER_BIT, DEPTH_BUFFER_BIT]]\<rparr>;
          a = js_add (xRotationAngle (state w)) (js_div (xRotationSpeed (state w)) 200);
          w = w\<lparr>state := (state w)\<lparr>xRotationAngle := a\<rparr>,
                effects := effects w @ [AngleUpdate X a]\<rparr>;
          a = js_add (yRotationAngle (state w)) (js_div (yRotationSpeed (state w)) 200);
          w = w\<lparr>state := (state w)\<lparr>yRotationAngle := a\<rparr>,
                effects := effects w @ [AngleUpdate Y a]\<rparr>;
          a = js_add (zRotationAngle (state w)) (js_div (zRotationSpeed (state w)) 200);
          w = w\<lparr>state := (state w)\<lparr>zRotationAngle := a\<rparr>,
                effects := effects w @ [AngleUpdate Z a]\<rparr>
      in case drawCarpet64 (- 1) (- 1) (canvasSize (state w)) (slider_value w) w of
           None \<Rightarrow> None
         | Some w \<Rightarrow> Some (w\<lparr>effects := effects w @ [RequestAnimationFrame]\<rparr>))"

fun ticks64 :: "nat \<Rightarrow> world \<Rightarrow> world option" where
  \<comment> \<open>so many frames in a row, with no input event between them\<close>
  "ticks64 0 w = Some w"
| "ticks64 (Suc n) w = (case animate64 w of None \<Rightarrow> None | Some w' \<Rightarrow> ticks64 n w')"

section \<open>Event handling\<close>

definition handleMouseDown :: "real \<times> real \<Rightarrow> state \<Rightarrow> state" where
  "handleMouseDown event s = (case event of (clientX, clientY) \<Rightarrow>
     s\<lparr>mouseDown := True, lastMouseX := Some clientX, lastMouseY := Some clientY\<rparr>)"

definition handleMouseUp :: "state \<Rightarrow> state" where
  "handleMouseUp s = s\<lparr>mouseDown := False\<rparr>"

definition ToNumber :: "real option \<Rightarrow> real" where
  \<comment> \<open>the conversion of an operand of a subtraction to a number: \<^verbatim>\<open>null\<close> counts as 0\<close>
  "ToNumber v = (case v of None \<Rightarrow> 0 | Some r \<Rightarrow> r)"

definition handleMouseMove :: "real \<times> real \<Rightarrow> state \<Rightarrow> state" where
  "handleMouseMove event s = (case event of (clientX, clientY) \<Rightarrow>
     if \<not> mouseDown s then s
     else
      (let newX = clientX;
           newY = clientY;
           deltaX = newX - ToNumber (lastMouseX s);
           deltaY = newY - ToNumber (lastMouseY s);
           newRotationMatrix = mat4_create;
           newRotationMatrix =
             (case mat4_rotate newRotationMatrix (dragSensitivity s * deltaX) (0, 1, 0) of
                None \<Rightarrow> newRotationMatrix | Some m \<Rightarrow> m);
           newRotationMatrix =
             (case mat4_rotate newRotationMatrix (dragSensitivity s * deltaY) (1, 0, 0) of
                None \<Rightarrow> newRotationMatrix | Some m \<Rightarrow> m)
       in s\<lparr>canvasRotationMatrix := mat4_multiply newRotationMatrix (canvasRotationMatrix s),
            lastMouseX := Some newX, lastMouseY := Some newY\<rparr>))"

definition onCanvasWheel :: "real \<Rightarrow> state \<Rightarrow> state" where
  \<comment> \<open>the argument is \<^verbatim>\<open>event.deltaY\<close>. The literal \<^verbatim>\<open>0.1\<close> is the binary64 number nearest to
      one tenth, and the sum and the difference are rounded.\<close>
  "onCanvasWheel deltaY s =
     (let zoomSensitivity = double (1 / 10);
          s = (if deltaY > 0 then s\<lparr>canvasScale := js_sub (canvasScale s) zoomSensitivity\<rparr>
               else if deltaY < 0 then s\<lparr>canvasScale := js_add (canvasScale s) zoomSensitivity\<rparr>
               else s)
      in s\<lparr>canvasScale := min (max (canvasScale s) (double (1 / 10))) 10\<rparr>)"

section \<open>Notions of the statements\<close>

definition advance :: "state \<Rightarrow> state" where
  \<comment> \<open>the three assignments of \<^verbatim>\<open>animate\<close> to the spin angles\<close>
  "advance s = s\<lparr>xRotationAngle := xRotationAngle s + xRotationSpeed s / 200,
                yRotationAngle := yRotationAngle s + yRotationSpeed s / 200,
                zRotationAngle := zRotationAngle s + zRotationSpeed s / 200\<rparr>"

definition advance64 :: "state \<Rightarrow> state" where
  \<comment> \<open>the three assignments of \<^verbatim>\<open>animate\<close> to the spin angles, in the binary64 reading\<close>
  "advance64 s = s\<lparr>xRotationAngle := js_add (xRotationAngle s) (js_div (xRotationSpeed s) 200),
                  yRotationAngle := js_add (yRotationAngle s) (js_div (yRotationSpeed s) 200),
                  zRotationAngle := js_add (zRotationAngle s) (js_div (zRotationSpeed s) 200)\<rparr>"

fun is_DrawArrays :: "effect \<Rightarrow> bool" where
  "is_DrawArrays (DrawArrays first count) = True"
| "is_DrawArrays e = False"

definition draw_calls :: "effect list \<Rightarrow> nat" where
  \<comment> \<open>the number of calls of \<^verbatim>\<open>gl.drawArrays\<close>: one for every cube drawn\<close>
  "draw_calls es = length (filter is_DrawArrays es)"

definition effects_of :: "world option \<Rightarrow> effect list" where
  \<comment> \<open>the calls made so far, where there is a result\<close>
  "effects_of r = (case r of None \<Rightarrow> [] | Some w \<Rightarrow> effects w)"

definition draws :: "nat \<Rightarrow> world \<Rightarrow> world \<Rightarrow> bool" where
  \<comment> \<open>from the first world to the second, so many cubes have been drawn, and neither the
      state nor the slider has changed\<close>
  "draws k w w' \<longleftrightarrow> state w' = state w \<and> slider_value w' = slider_value w
     \<and> draw_calls (effects w') = draw_calls (effects w) + k"

definition rounded_center :: "cube \<Rightarrow> real \<times> real \<times> real" where
  \<comment> \<open>the midpoint of the front bottom left and the back top right vertex of a cube, each
      coordinate rounded to four decimal places\<close>
  "rounded_center c = (case c of (x, y, z, s) \<Rightarrow>
     ((Math_round ((x - s / 2) * 10000) / 10000 + Math_round ((x + s / 2) * 10000) / 10000) / 2,
      (Math_round ((y - s / 2) * 10000) / 10000 + Math_round ((y + s / 2) * 10000) / 10000) / 2,
      (Math_round ((z + s / 2) * 10000) / 10000 + Math_round ((z - s / 2) * 10000) / 10000) / 2))"

definition on_grid :: "real \<Rightarrow> bool" where
  \<comment> \<open>a multiple of \<open>10\<^sup>-\<^sup>4\<close>\<close>
  "on_grid v = (of_int \<lfloor>v * 10000\<rfloor> = v * 10000)"

fun drawCubes_calls :: "cube list \<Rightarrow> world \<Rightarrow> effect list" where
  \<comment> \<open>the calls to the WebGL context for a list of cubes, cube after cube: each cube with
      the normal matrix of the model matrix before it, and its own model matrix after it\<close>
  "drawCubes_calls [] w = []"
| "drawCubes_calls ((x, y, z, s) # cs) w =
     (let m = drawCube_modelMatrix (state w) (rounded_center (x, y, z, s))
      in drawCube_calls (createCubeVertices x y z s) (drawCube_normalMatrix (modelMatrix w)) m w
         @ drawCubes_calls cs (w\<lparr>modelMatrix := m\<rparr>))"

fun uploads :: "uniform \<Rightarrow> effect list \<Rightarrow> mat4 list" where
  \<comment> \<open>the matrices sent to one uniform, in the order of the calls\<close>
  "uploads u [] = []"
| "uploads u (UniformMatrix4fv u' m # es) = (if u' = u then m # uploads u es else uploads u es)"
| "uploads u (e # es) = uploads u es"

definition center :: "cube \<Rightarrow> real \<times> real \<times> real" where
  \<comment> \<open>the centre of a cube: the first three arguments of \<^verbatim>\<open>createCubeVertices\<close>\<close>
  "center c = (case c of (x, y, z, s) \<Rightarrow> (x, y, z))"

section \<open>The gl-matrix operations as products\<close>

lemma mat4_scale_eq: "mat4_scale a (x, y, z) = a * Scale x y z"
  by (cases a; cases "col0 a"; cases "col1 a"; cases "col2 a"; cases "col3 a")
     (simp add: mat4_scale_def times_mat4_def mat4_multiply_def Scale_def)

lemma mat4_translate_eq: "mat4_translate a (x, y, z) = a * Translate x y z"
  by (cases a; cases "col0 a"; cases "col1 a"; cases "col2 a"; cases "col3 a")
     (simp add: mat4_translate_def times_mat4_def mat4_multiply_def Translate_def)

lemma mat4_rotateX_eq: "mat4_rotateX a t = a * RotX t"
  by (cases a; cases "col0 a"; cases "col1 a"; cases "col2 a"; cases "col3 a")
     (simp add: mat4_rotateX_def Let_def times_mat4_def mat4_multiply_def RotX_def)

lemma mat4_rotateY_eq: "mat4_rotateY a t = a * RotY t"
  by (cases a; cases "col0 a"; cases "col1 a"; cases "col2 a"; cases "col3 a")
     (simp add: mat4_rotateY_def Let_def times_mat4_def mat4_multiply_def RotY_def)

lemma mat4_rotateZ_eq: "mat4_rotateZ a t = a * RotZ t"
  by (cases a; cases "col0 a"; cases "col1 a"; cases "col2 a"; cases "col3 a")
     (simp add: mat4_rotateZ_def Let_def times_mat4_def mat4_multiply_def RotZ_def)

lemma mat4_rotate_Y: "mat4_rotate a t (0, 1, 0) = Some (a * RotY t)"
  by (cases a; cases "col0 a"; cases "col1 a"; cases "col2 a"; cases "col3 a")
     (simp add: mat4_rotate_def Let_def times_mat4_def mat4_multiply_def RotY_def algebra_simps)

lemma mat4_rotate_X: "mat4_rotate a t (1, 0, 0) = Some (a * RotX t)"
  by (cases a; cases "col0 a"; cases "col1 a"; cases "col2 a"; cases "col3 a")
     (simp add: mat4_rotate_def Let_def times_mat4_def mat4_multiply_def RotX_def algebra_simps)

lemma mat4_invert_adjugate:
  "mat4_invert a = (if mat4_determinant a = 0 then None
                    else Some (mat4_scalar (1 / mat4_determinant a) (mat4_adjugate a)))"
  by (cases a; cases "col0 a"; cases "col1 a"; cases "col2 a"; cases "col3 a")
     (simp add: mat4_invert_def mat4_adjugate_def mat4_scalar_def Let_def mult.commute)

lemma mat4_times_adjugate:
  "a * mat4_adjugate a = mat4_scalar (mat4_determinant a) 1"
  by (cases a; cases "col0 a"; cases "col1 a"; cases "col2 a"; cases "col3 a")
     (simp add: mat4_adjugate_def mat4_scalar_def Let_def times_mat4_def one_mat4_def
        mat4_multiply_def mat4_create_def algebra_simps)

lemma mat4_adjugate_times:
  "mat4_adjugate a * a = mat4_scalar (mat4_determinant a) 1"
  by (cases a; cases "col0 a"; cases "col1 a"; cases "col2 a"; cases "col3 a")
     (simp add: mat4_adjugate_def mat4_scalar_def Let_def times_mat4_def one_mat4_def
        mat4_multiply_def mat4_create_def algebra_simps)

lemma mat4_times_scalar: "a * mat4_scalar k b = mat4_scalar k (a * b)"
  by (cases a; cases b; cases "col0 a"; cases "col1 a"; cases "col2 a"; cases "col3 a";
      cases "col0 b"; cases "col1 b"; cases "col2 b"; cases "col3 b")
     (simp add: mat4_scalar_def times_mat4_def mat4_multiply_def algebra_simps)

lemma mat4_scalar_times: "mat4_scalar k a * b = mat4_scalar k (a * b)"
  by (cases a; cases b; cases "col0 a"; cases "col1 a"; cases "col2 a"; cases "col3 a";
      cases "col0 b"; cases "col1 b"; cases "col2 b"; cases "col3 b")
     (simp add: mat4_scalar_def times_mat4_def mat4_multiply_def algebra_simps)

lemma mat4_scalar_scalar: "mat4_scalar k (mat4_scalar l a) = mat4_scalar (k * l) a"
  by (cases a; cases "col0 a"; cases "col1 a"; cases "col2 a"; cases "col3 a")
     (simp add: mat4_scalar_def)

lemma mat4_scalar_1: "mat4_scalar 1 a = a"
  by (cases a; cases "col0 a"; cases "col1 a"; cases "col2 a"; cases "col3 a")
     (simp add: mat4_scalar_def)

lemma mat4_invert_inverse:
  assumes "mat4_invert a = Some b"
  shows "a * b = 1" and "b * a = 1"
proof -
  from assms have d: "mat4_determinant a \<noteq> 0"
    and b: "b = mat4_scalar (1 / mat4_determinant a) (mat4_adjugate a)"
    by (simp_all add: mat4_invert_adjugate split: if_splits)
  show "a * b = 1"
    using d by (simp add: b mat4_times_scalar mat4_times_adjugate mat4_scalar_scalar mat4_scalar_1)
  show "b * a = 1"
    using d by (simp add: b mat4_scalar_times mat4_adjugate_times mat4_scalar_scalar mat4_scalar_1)
qed

section \<open>The carpet\<close>

declare drawCarpet.simps [simp del] carpet_cubes.simps [simp del] drawCarpet64.simps [simp del]

lemma upt_3: "[0..<3] = [0, 1, 2]"
  by (simp add: upt_rec)

text \<open>The two loops of \<^verbatim>\<open>drawCarpet\<close>, unrolled.\<close>

lemma carpet_cubes_unfold:
  "carpet_cubes x y s n =
     (if n > 1 then
        carpet_cubes x y (s / 3) (n - 1) @
        carpet_cubes x (y + s / 3) (s / 3) (n - 1) @
        carpet_cubes x (y + 2 * (s / 3)) (s / 3) (n - 1) @
        carpet_cubes (x + s / 3) y (s / 3) (n - 1) @
        [(x + s / 3 + s / 3 / 2, y + s / 3 + s / 3 / 2, s / 3 / 2, s / 3)] @
        carpet_cubes (x + s / 3) (y + 2 * (s / 3)) (s / 3) (n - 1) @
        carpet_cubes (x + 2 * (s / 3)) y (s / 3) (n - 1) @
        carpet_cubes (x + 2 * (s / 3)) (y + s / 3) (s / 3) (n - 1) @
        carpet_cubes (x + 2 * (s / 3)) (y + 2 * (s / 3)) (s / 3) (n - 1)
      else [(x + s / 3 + s / 3 / 2, y + s / 3 + s / 3 / 2, s / 3 / 2, s / 3)])"
  by (subst carpet_cubes.simps) (simp add: upt_3 Let_def)

lemma drawCarpet_unfold:
  "drawCarpet x y s n w =
     (if n > 1 then
        Option.bind (Option.bind (Option.bind (Option.bind (Option.bind (Option.bind
          (Option.bind (Option.bind
            (drawCarpet x y (s / 3) (n - 1) w)
            (drawCarpet x (y + s / 3) (s / 3) (n - 1)))
            (drawCarpet x (y + 2 * (s / 3)) (s / 3) (n - 1)))
            (drawCarpet (x + s / 3) y (s / 3) (n - 1)))
            (drawCube (createCubeVertices (x + s / 3 + s / 3 / 2) (y + s / 3 + s / 3 / 2)
                         (s / 3 / 2) (s / 3))))
            (drawCarpet (x + s / 3) (y + 2 * (s / 3)) (s / 3) (n - 1)))
            (drawCarpet (x + 2 * (s / 3)) y (s / 3) (n - 1)))
            (drawCarpet (x + 2 * (s / 3)) (y + s / 3) (s / 3) (n - 1)))
            (drawCarpet (x + 2 * (s / 3)) (y + 2 * (s / 3)) (s / 3) (n - 1))
      else drawCube (createCubeVertices (x + s / 3 + s / 3 / 2) (y + s / 3 + s / 3 / 2)
                       (s / 3 / 2) (s / 3)) w)"
  by (subst drawCarpet.simps) (simp add: upt_3 Let_def Option.bind_def split: option.splits)

text \<open>A cube made by \<^verbatim>\<open>createCubeVertices\<close> has all the vertices that \<^verbatim>\<open>drawCube\<close> reads.\<close>

lemma drawCube_createCubeVertices:
  "\<exists>w'. drawCube (createCubeVertices x y z s) w = Some w'"
  by (simp add: drawCube_def drawCube_center_def createCubeVertices_def Let_def)

lemma drawCubes_Some: "\<exists>w'. drawCubes cs w = Some w'"
proof (induction cs arbitrary: w)
  case Nil
  show ?case by simp
next
  case (Cons c cs)
  obtain x y z s where c: "c = (x, y, z, s)" by (cases c)
  obtain w1 where "drawCube (createCubeVertices x y z s) w = Some w1"
    using drawCube_createCubeVertices by blast
  with Cons [of w1] show ?case by (simp add: c)
qed

lemma drawCubes_append_bind:
  "drawCubes (as @ bs) w = Option.bind (drawCubes as w) (drawCubes bs)"
  by (induction as w rule: drawCubes.induct) (auto split: option.splits)

lemma drawCubes_Cons_bind:
  "drawCubes ((x, y, z, s) # cs) w =
     Option.bind (drawCube (createCubeVertices x y z s) w) (drawCubes cs)"
  by (simp add: Option.bind_def split: option.splits)

text \<open>
  \<^verbatim>\<open>drawCarpet\<close> does what the calls of \<^verbatim>\<open>drawCube\<close> on its cubes do, one after the
  other.
\<close>

lemma drawCarpet_drawCubes:
  "drawCarpet x y s n w = drawCubes (carpet_cubes x y s n) w"
proof (induction "nat n" arbitrary: n x y s w)
  case 0
  then have "\<not> n > 1" by simp
  then show ?case
    by (subst drawCarpet_unfold, subst carpet_cubes_unfold) (simp split: option.splits)
next
  case (Suc k)
  show ?case
  proof (cases "n > 1")
    case False
    then show ?thesis
      by (subst drawCarpet_unfold, subst carpet_cubes_unfold) (simp split: option.splits)
  next
    case True
    with Suc.hyps(2) have "k = nat (n - 1)" by simp
    then have IH: "drawCarpet x' y' s' (n - 1) w' = drawCubes (carpet_cubes x' y' s' (n - 1)) w'"
      for x' y' s' w'
      by (rule Suc.hyps(1))
    have IH': "drawCarpet x' y' s' (n - 1) = drawCubes (carpet_cubes x' y' s' (n - 1))"
      for x' y' s'
      by (rule ext) (rule IH)
    show ?thesis
      apply (subst drawCarpet_unfold)
      apply (subst carpet_cubes_unfold)
      apply (simp only: True if_True IH IH')
      apply (simp add: drawCubes_append_bind [abs_def] drawCubes_Cons_bind [abs_def]
               Option.bind_assoc del: drawCubes.simps)
      done
  qed
qed

lemma sum_pow8: "(\<Sum>k<Suc n. (8::nat) ^ k) = 1 + 8 * (\<Sum>k<n. 8 ^ k)"
  by (simp add: sum.lessThan_Suc_shift sum_distrib_left del: sum.lessThan_Suc)

lemma length_carpet_cubes:
  "1 \<le> n \<Longrightarrow> length (carpet_cubes x y s n) = (\<Sum>k<nat n. 8 ^ k)"
proof (induction "nat n" arbitrary: n x y s)
  case 0
  then show ?case by simp
next
  case (Suc k)
  show ?case
  proof (cases "n > 1")
    case False
    with Suc.prems have "n = 1" by simp
    then show ?thesis by (subst carpet_cubes_unfold) simp
  next
    case True
    with Suc.hyps(2) have k: "k = nat (n - 1)" and n: "nat n = Suc (nat (n - 1))" by simp_all
    from True have "1 \<le> n - 1" by simp
    with k have IH: "length (carpet_cubes x' y' s' (n - 1)) = (\<Sum>k<nat (n - 1). 8 ^ k)"
      for x' y' s'
      using Suc.hyps(1) by blast
    show ?thesis
      by (subst carpet_cubes_unfold) (simp add: True IH n sum_pow8 del: sum.lessThan_Suc)
  qed
qed

subsection \<open>The centres of the cubes\<close>








section \<open>Rounding to binary64\<close>

lemma round_half_even_error: "\<bar>of_int (round_half_even y) - y\<bar> \<le> 1 / 2"
  unfolding round_half_even_def Let_def by (auto; linarith)

lemma round_half_even_of_int [simp]: "round_half_even (of_int k) = k"
  by (simp add: round_half_even_def)

lemma floor_log2_eq:
  assumes "2 powi e \<le> \<bar>x\<bar>" and "\<bar>x\<bar> < 2 powi (e + 1)"
  shows "\<lfloor>log 2 \<bar>x\<bar>\<rfloor> = e"
proof -
  have "(0::real) < 2 powi e" by simp
  with assms(1) have pos: "0 < \<bar>x\<bar>" by linarith
  have "(2::real) powr of_int e = 2 powi e" "(2::real) powr (of_int e + 1) = 2 powi (e + 1)"
    using powr_real_of_int' [of 2 e] powr_real_of_int' [of 2 "e + 1"] by simp_all
  with assms show ?thesis
    using floor_log_eq_powr_iff [of "\<bar>x\<bar>" 2 e] pos by simp
qed

lemma double_eval:
  assumes "2 powi e \<le> \<bar>x\<bar>" and "\<bar>x\<bar> < 2 powi (e + 1)"
  shows "double x = of_int (round_half_even (x / 2 powi (max e (- 1022) - 52)))
                    * 2 powi (max e (- 1022) - 52)"
proof -
  have "(0::real) < 2 powi e" by simp
  with assms(1) have "0 < \<bar>x\<bar>" by linarith
  then have "x \<noteq> 0" by simp
  then show ?thesis
    by (simp add: double_def Let_def floor_log2_eq [OF assms])
qed

lemma power_int_2_less_imp: "(2::real) powi a < 2 powi b \<Longrightarrow> a < b"
proof (rule ccontr)
  assume less: "(2::real) powi a < 2 powi b" and "\<not> a < b"
  then have "(2::real) powi b \<le> 2 powi a" by (intro power_int_increasing) simp_all
  with less show False by linarith
qed

lemma double_error:
  assumes "\<bar>x\<bar> < 2 powi k" and "- 1021 \<le> k"
  shows "\<bar>double x - x\<bar> \<le> 2 powi (k - 54)"
proof (cases "x = 0")
  case True
  then show ?thesis by (simp add: double_def)
next
  case False
  define e where "e = \<lfloor>log 2 \<bar>x\<bar>\<rfloor>"
  define q where "q = max e (- 1022) - 52"
  define u :: real where "u = 2 powi q"
  have u: "0 < u" by (simp add: u_def)
  from False have pos: "0 < \<bar>x\<bar>" by simp
  have "2 powr of_int e \<le> \<bar>x\<bar>"
    using floor_log_eq_powr_iff [of "\<bar>x\<bar>" 2 e] pos by (simp add: e_def)
  then have "(2::real) powi e \<le> \<bar>x\<bar>" using powr_real_of_int' [of 2 e] by simp
  with assms(1) have "(2::real) powi e < 2 powi k" by linarith
  then have "e < k" by (rule power_int_2_less_imp)
  with assms(2) have q: "q \<le> k - 53" by (simp add: q_def)
  have d: "double x = of_int (round_half_even (x / u)) * u"
    using False by (simp add: double_def Let_def e_def q_def u_def)
  have "double x - x = (of_int (round_half_even (x / u)) - x / u) * u"
    using u by (simp add: d field_simps)
  then have "\<bar>double x - x\<bar> = \<bar>of_int (round_half_even (x / u)) - x / u\<bar> * u"
    using u by (simp add: abs_mult)
  also have "\<dots> \<le> 1 / 2 * u"
    using round_half_even_error [of "x / u"] u by (intro mult_right_mono) simp_all
  also have "\<dots> = 2 powi (q - 1)"
    by (simp add: u_def power_int_diff)
  also have "\<dots> \<le> 2 powi (k - 54)"
    using q by (intro power_int_increasing) simp_all
  finally show ?thesis .
qed

lemma double_representable:
  assumes "\<bar>m\<bar> < 2 ^ 53" and "- 1074 \<le> q"
  shows "double (of_int m * 2 powi q) = of_int m * 2 powi q"
proof (cases "m = 0")
  case True
  then show ?thesis by (simp add: double_def)
next
  case False
  define x :: real where "x = of_int m * 2 powi q"
  define e where "e = \<lfloor>log 2 \<bar>x\<bar>\<rfloor>"
  define p where "p = max e (- 1022) - 52"
  from False have x0: "x \<noteq> 0" by (simp add: x_def)
  then have pos: "0 < \<bar>x\<bar>" by simp
  have "2 powr of_int e \<le> \<bar>x\<bar>"
    using floor_log_eq_powr_iff [of "\<bar>x\<bar>" 2 e] pos by (simp add: e_def)
  then have lo: "(2::real) powi e \<le> \<bar>x\<bar>" using powr_real_of_int' [of 2 e] by simp
  have "\<bar>x\<bar> = of_int \<bar>m\<bar> * 2 powi q" by (simp add: x_def abs_mult)
  also have "\<dots> < 2 ^ 53 * 2 powi q"
    using assms(1) by (intro mult_strict_right_mono) (simp_all add: of_int_less_iff [symmetric, where 'a = real] del: of_int_less_iff)
  also have "\<dots> = 2 powi (53 + q)" by (simp add: power_int_add)
  finally have "(2::real) powi e < 2 powi (53 + q)" using lo by linarith
  then have "e < 53 + q" by (rule power_int_2_less_imp)
  with assms(2) have p: "p \<le> q" by (simp add: p_def)
  then have "x / 2 powi p = of_int m * 2 powi (q - p)"
    by (simp add: x_def power_int_diff)
  also have "\<dots> = of_int (m * 2 ^ nat (q - p))"
    using p by (simp add: power_int_def)
  finally have "round_half_even (x / 2 powi p) = m * 2 ^ nat (q - p)"
    by (simp only: round_half_even_of_int)
  then have "double x = of_int (m * 2 ^ nat (q - p)) * 2 powi p"
    using x0 by (simp add: double_def Let_def e_def p_def)
  also have "\<dots> = of_int m * (2 powi (q - p) * 2 powi p)"
    using p by (simp add: power_int_def)
  also have "\<dots> = x"
    by (simp add: x_def power_int_add [symmetric])
  finally show ?thesis by (simp add: x_def)
qed

lemma double_of_int: "\<bar>m\<bar> < 2 ^ 53 \<Longrightarrow> double (of_int m) = of_int m"
  using double_representable [of m 0] by simp

section \<open>The wheel\<close>

lemma double_tenth: "double (1 / 10) = 3602879701896397 / 36028797018963968"
  by (subst double_eval [where e = "- 4"]) (simp_all add: round_half_even_def Let_def)

lemma wheel_out:
  "0 < deltaY \<Longrightarrow> canvasScale (onCanvasWheel deltaY s) =
     min (max (js_sub (canvasScale s) (double (1 / 10))) (double (1 / 10))) 10"
  by (simp add: onCanvasWheel_def Let_def)

lemma wheel_in:
  "deltaY < 0 \<Longrightarrow> canvasScale (onCanvasWheel deltaY s) =
     min (max (js_add (canvasScale s) (double (1 / 10))) (double (1 / 10))) 10"
  by (simp add: onCanvasWheel_def Let_def)

lemma wheel_range:
  "double (1 / 10) \<le> canvasScale (onCanvasWheel deltaY s) \<and> canvasScale (onCanvasWheel deltaY s) \<le> 10"
  by (simp add: onCanvasWheel_def Let_def double_tenth)

lemma double_near:
  assumes "\<bar>x\<bar> < 32"
  shows "\<bar>double x - x\<bar> \<le> 1 / 2 ^ 49"
  using double_error [of x 5] assms by (simp add: power_int_minus field_simps)

lemma wheel_out_step:
  assumes "0 < d" and "double (1 / 10) \<le> canvasScale s" and "canvasScale s \<le> 10"
  shows "canvasScale (onCanvasWheel d s) \<le> max (double (1 / 10)) (canvasScale s - 9 / 100)"
proof -
  let ?t = "canvasScale s - double (1 / 10)"
  from assms(2,3) have "\<bar>?t\<bar> < 32" by (simp add: double_tenth)
  from double_near [OF this] have "double ?t \<le> ?t + 1 / 2 ^ 49" by linarith
  then have "double ?t \<le> canvasScale s - 9 / 100" by (simp add: double_tenth)
  then show ?thesis
    using assms(3) by (simp add: wheel_out [OF assms(1)] js_sub_def double_tenth)
qed

lemma wheel_in_step:
  assumes "d < 0" and "double (1 / 10) \<le> canvasScale s" and "canvasScale s \<le> 10"
  shows "min 10 (canvasScale s + 9 / 100) \<le> canvasScale (onCanvasWheel d s)"
proof -
  let ?t = "canvasScale s + double (1 / 10)"
  from assms(2,3) have "\<bar>?t\<bar> < 32" by (simp add: double_tenth)
  from double_near [OF this] have "?t - 1 / 2 ^ 49 \<le> double ?t" by linarith
  then have "canvasScale s + 9 / 100 \<le> double ?t" by (simp add: double_tenth)
  then show ?thesis
    using assms(2) by (simp add: wheel_in [OF assms(1)] js_add_def double_tenth)
qed

lemma wheel_out_many:
  "\<forall>d\<in>set ds. 0 < d \<Longrightarrow> double (1 / 10) \<le> canvasScale s \<Longrightarrow> canvasScale s \<le> 10 \<Longrightarrow>
     canvasScale (fold onCanvasWheel ds s)
       \<le> max (double (1 / 10)) (canvasScale s - real (length ds) * (9 / 100))
     \<and> double (1 / 10) \<le> canvasScale (fold onCanvasWheel ds s)"
proof (induction ds arbitrary: s)
  case Nil
  then show ?case by simp
next
  case (Cons d ds)
  let ?s = "onCanvasWheel d s"
  from Cons.prems have d: "0 < d" by simp
  have IH: "canvasScale (fold onCanvasWheel ds ?s)
       \<le> max (double (1 / 10)) (canvasScale ?s - real (length ds) * (9 / 100))
     \<and> double (1 / 10) \<le> canvasScale (fold onCanvasWheel ds ?s)"
    using Cons.prems wheel_range [of d s] by (intro Cons.IH) simp_all
  have e: "real (length (d # ds)) * (9 / 100) = real (length ds) * (9 / 100) + 9 / 100"
    by (simp add: algebra_simps)
  have n0: "0 \<le> real (length ds) * (9 / 100)" by simp
  from wheel_out_step [OF d Cons.prems(2,3)] IH n0 show ?case
    unfolding e fold_simps by (auto simp add: max_def split: if_splits; linarith)
qed

lemma wheel_in_many:
  "\<forall>d\<in>set ds. d < 0 \<Longrightarrow> double (1 / 10) \<le> canvasScale s \<Longrightarrow> canvasScale s \<le> 10 \<Longrightarrow>
     min 10 (canvasScale s + real (length ds) * (9 / 100))
       \<le> canvasScale (fold onCanvasWheel ds s)
     \<and> canvasScale (fold onCanvasWheel ds s) \<le> 10"
proof (induction ds arbitrary: s)
  case Nil
  then show ?case by simp
next
  case (Cons d ds)
  let ?s = "onCanvasWheel d s"
  from Cons.prems have d: "d < 0" by simp
  have IH: "min 10 (canvasScale ?s + real (length ds) * (9 / 100))
       \<le> canvasScale (fold onCanvasWheel ds ?s)
     \<and> canvasScale (fold onCanvasWheel ds ?s) \<le> 10"
    using Cons.prems wheel_range [of d s] by (intro Cons.IH) simp_all
  have e: "real (length (d # ds)) * (9 / 100) = real (length ds) * (9 / 100) + 9 / 100"
    by (simp add: algebra_simps)
  have n0: "0 \<le> real (length ds) * (9 / 100)" by simp
  from wheel_in_step [OF d Cons.prems(2,3)] IH n0 show ?case
    unfolding e fold_simps by (auto simp add: min_def split: if_splits; linarith)
qed

lemma wheel_200_out:
  assumes "canvasScale s = 1" "length ds = 200" "\<forall>d\<in>set ds. 0 < d"
  shows "canvasScale (fold onCanvasWheel ds s) = double (1 / 10)"
  using wheel_out_many [OF assms(3), of s] assms(1,2) by (simp add: double_tenth)

lemma wheel_200_in:
  assumes "canvasScale s = 1" "length ds = 200" "\<forall>d\<in>set ds. d < 0"
  shows "canvasScale (fold onCanvasWheel ds s) = 10"
  using wheel_in_many [OF assms(3), of s] assms(1,2) by (simp add: double_tenth)

lemma sub1: "js_sub 1 (3602879701896397 / 36028797018963968) = 8106479329266893 / 9007199254740992"
  unfolding js_sub_def
  by (subst double_eval [where e = "- 1"]) (simp_all add: round_half_even_def Let_def)

lemma sub2:
  "js_sub (8106479329266893 / 9007199254740992) (3602879701896397 / 36028797018963968)
     = 3602879701896397 / 4503599627370496"
  unfolding js_sub_def
  by (subst double_eval [where e = "- 1"]) (simp_all add: round_half_even_def Let_def)

lemma sub3:
  "js_sub (3602879701896397 / 4503599627370496) (3602879701896397 / 36028797018963968)
     = 6305039478318695 / 9007199254740992"
  unfolding js_sub_def
  by (subst double_eval [where e = "- 1"]) (simp_all add: round_half_even_def Let_def)

lemma add1: "js_add 1 (3602879701896397 / 36028797018963968) = 2476979795053773 / 2251799813685248"
  unfolding js_add_def
  by (subst double_eval [where e = 0]) (simp_all add: round_half_even_def Let_def)

lemma step_back:
  "js_sub (3602879701896397 / 4503599627370496) (6305039478318695 / 9007199254740992)
     = 900719925474099 / 9007199254740992"
  unfolding js_sub_def
  by (subst double_eval [where e = "- 4"]) (simp_all add: round_half_even_def Let_def)

text \<open>
  C6, as the script has it. A wheel event with a negative \<^verbatim>\<open>deltaY\<close> replaces the scale by
  the binary64 number nearest to the scale plus 0.1, and one with a positive \<^verbatim>\<open>deltaY\<close> by
  the binary64 number nearest to the scale minus 0.1, where 0.1 is the binary64 number
  nearest to one tenth; the result is clamped to the interval from 0.1 to 10 after every
  event. From the scale 1, two hundred events that zoom out leave the scale 0.1, and two
  hundred events that zoom in leave it 10, whatever the roundings on the way.
\<close>

theorem wheel_zoom:
  "(deltaY < 0 \<longrightarrow>
      canvasScale (onCanvasWheel deltaY s)
        = min (max (js_add (canvasScale s) (double (1 / 10))) (double (1 / 10))) 10)
   \<and> (0 < deltaY \<longrightarrow>
      canvasScale (onCanvasWheel deltaY s)
        = min (max (js_sub (canvasScale s) (double (1 / 10))) (double (1 / 10))) 10)
   \<and> double (1 / 10) \<le> canvasScale (onCanvasWheel deltaY s)
   \<and> canvasScale (onCanvasWheel deltaY s) \<le> 10
   \<and> (canvasScale s = 1 \<and> length ds = 200 \<and> (\<forall>d\<in>set ds. 0 < d) \<longrightarrow>
      canvasScale (fold onCanvasWheel ds s) = double (1 / 10))
   \<and> (canvasScale s = 1 \<and> length ds = 200 \<and> (\<forall>d\<in>set ds. d < 0) \<longrightarrow>
      canvasScale (fold onCanvasWheel ds s) = 10)
   \<and> double (1 / 10) = 3602879701896397 / 36028797018963968"
proof -
  have 1: "deltaY < 0 \<longrightarrow>
      canvasScale (onCanvasWheel deltaY s)
        = min (max (js_add (canvasScale s) (double (1 / 10))) (double (1 / 10))) 10"
    using wheel_in [of deltaY s] by blast
  have 2: "0 < deltaY \<longrightarrow>
      canvasScale (onCanvasWheel deltaY s)
        = min (max (js_sub (canvasScale s) (double (1 / 10))) (double (1 / 10))) 10"
    using wheel_out [of deltaY s] by blast
  have 3: "canvasScale s = 1 \<and> length ds = 200 \<and> (\<forall>d\<in>set ds. 0 < d) \<longrightarrow>
      canvasScale (fold onCanvasWheel ds s) = double (1 / 10)"
    using wheel_200_out [of s ds] by blast
  have 4: "canvasScale s = 1 \<and> length ds = 200 \<and> (\<forall>d\<in>set ds. d < 0) \<longrightarrow>
      canvasScale (fold onCanvasWheel ds s) = 10"
    using wheel_200_in [of s ds] by blast
  from 1 2 3 4 wheel_range [of deltaY s] double_tenth show ?thesis by blast
qed

theorem wheel_zoom_witness:
  "(- 1 :: real) < 0 \<and> (0 :: real) < 1
   \<and> canvasScale initial_state = 1 \<and> length (replicate 200 (1 :: real)) = 200
   \<and> canvasScale (onCanvasWheel (- 1) initial_state) = 2476979795053773 / 2251799813685248
   \<and> canvasScale (onCanvasWheel 1 initial_state) = 8106479329266893 / 9007199254740992
   \<and> canvasScale (fold onCanvasWheel (replicate 200 1) initial_state)
       = 3602879701896397 / 36028797018963968
   \<and> canvasScale (fold onCanvasWheel (replicate 200 (- 1)) initial_state) = 10"
proof -
  note a = wheel_zoom [of "- 1" initial_state "replicate 200 (- 1)"]
  note b = wheel_zoom [of 1 initial_state "replicate 200 1"]
  have i: "canvasScale initial_state = 1" by (simp add: initial_state_def)
  have l: "length (replicate 200 (1 :: real)) = 200" "length (replicate 200 (- 1 :: real)) = 200"
    by simp_all
  have p: "\<forall>d\<in>set (replicate 200 (1 :: real)). 0 < d"
    "\<forall>d\<in>set (replicate 200 (- 1 :: real)). d < 0"
    by simp_all
  from a have "canvasScale (onCanvasWheel (- 1) initial_state)
      = min (max (js_add (canvasScale initial_state) (double (1 / 10))) (double (1 / 10))) 10"
    by simp
  then have w1: "canvasScale (onCanvasWheel (- 1) initial_state)
      = 2476979795053773 / 2251799813685248"
    by (simp add: i double_tenth add1)
  from b have "canvasScale (onCanvasWheel 1 initial_state)
      = min (max (js_sub (canvasScale initial_state) (double (1 / 10))) (double (1 / 10))) 10"
    by simp
  then have w2: "canvasScale (onCanvasWheel 1 initial_state)
      = 8106479329266893 / 9007199254740992"
    by (simp add: i double_tenth sub1)
  from a i l p have w3: "canvasScale (fold onCanvasWheel (replicate 200 (- 1)) initial_state) = 10"
    by blast
  from b i l p have "canvasScale (fold onCanvasWheel (replicate 200 1) initial_state)
      = double (1 / 10)"
    by blast
  then have w4: "canvasScale (fold onCanvasWheel (replicate 200 1) initial_state)
      = 3602879701896397 / 36028797018963968"
    by (simp only: double_tenth)
  from w1 w2 w3 w4 i l show ?thesis by simp
qed

text \<open>
  The scale does not change by 0.1 at every event. From the scale 1, the second event
  that zooms out leaves 0.8 and the third leaves 0.7000000000000001: this is neither 0.8
  less one tenth nor 0.8 less the binary64 number nearest to one tenth, and the
  difference of the two scales, as the script would compute it, is 0.09999999999999998
  and not 0.1.
\<close>

theorem wheel_step_not_exact:
  "canvasScale (onCanvasWheel 1 (onCanvasWheel 1 initial_state))
       = 3602879701896397 / 4503599627370496
   \<and> canvasScale (onCanvasWheel 1 (onCanvasWheel 1 (onCanvasWheel 1 initial_state)))
       = 6305039478318695 / 9007199254740992
   \<and> 6305039478318695 / 9007199254740992 \<noteq> 3602879701896397 / 4503599627370496 - (1 / 10 :: real)
   \<and> 6305039478318695 / 9007199254740992 \<noteq> 3602879701896397 / 4503599627370496 - double (1 / 10)
   \<and> js_sub (3602879701896397 / 4503599627370496) (6305039478318695 / 9007199254740992)
       \<noteq> double (1 / 10)"
  by (simp add: wheel_out initial_state_def sub1 sub2 sub3 step_back double_tenth)

section \<open>The render loop\<close>

text \<open>What \<^verbatim>\<open>drawCube\<close> does with a cube made by \<^verbatim>\<open>createCubeVertices\<close>.\<close>

lemma drawCube_center_cube:
  "drawCube_center (createCubeVertices x y z s) = Some (rounded_center (x, y, z, s))"
  by (simp add: drawCube_center_def createCubeVertices_def rounded_center_def Let_def)

lemma length_createCubeVertices: "length (createCubeVertices x y z s) = 108"
  by (simp add: createCubeVertices_def Let_def)

lemma drawCube_cube:
  "drawCube (createCubeVertices x y z s) w =
     Some (w\<lparr>modelMatrix := drawCube_modelMatrix (state w) (rounded_center (x, y, z, s)),
             effects := effects w @
               drawCube_calls (createCubeVertices x y z s) (drawCube_normalMatrix (modelMatrix w))
                 (drawCube_modelMatrix (state w) (rounded_center (x, y, z, s))) w\<rparr>)"
  by (simp add: drawCube_def drawCube_center_cube Let_def)

lemma drawCube_calls_cong:
  "viewMatrix w = viewMatrix v \<Longrightarrow> projectionMatrix w = projectionMatrix v \<Longrightarrow>
     drawCube_calls vs n m w = drawCube_calls vs n m v"
  by (simp add: drawCube_calls_def)

lemma drawCubes_calls_cong:
  "state w = state v \<Longrightarrow> modelMatrix w = modelMatrix v \<Longrightarrow> viewMatrix w = viewMatrix v \<Longrightarrow>
     projectionMatrix w = projectionMatrix v \<Longrightarrow> drawCubes_calls cs w = drawCubes_calls cs v"
proof (induction cs arbitrary: w v)
  case Nil
  show ?case by simp
next
  case (Cons c cs)
  obtain x y z s where c: "c = (x, y, z, s)" by (cases c)
  let ?m = "drawCube_modelMatrix (state v) (rounded_center (x, y, z, s))"
  have "drawCubes_calls cs (w\<lparr>modelMatrix := ?m\<rparr>) = drawCubes_calls cs (v\<lparr>modelMatrix := ?m\<rparr>)"
    using Cons.prems by (intro Cons.IH) simp_all
  with Cons.prems drawCube_calls_cong [of w v] show ?case
    by (simp add: c Let_def)
qed

lemma drawCubes_calls_effects:
  "drawCubes_calls cs (w\<lparr>effects := es\<rparr>) = drawCubes_calls cs w"
  by (rule drawCubes_calls_cong) simp_all

lemma drawCubes_effects:
  "\<exists>w'. drawCubes cs w = Some w' \<and> effects w' = effects w @ drawCubes_calls cs w
        \<and> state w' = state w \<and> slider_value w' = slider_value w"
proof (induction cs arbitrary: w)
  case Nil
  show ?case by simp
next
  case (Cons c cs)
  obtain x y z s where c: "c = (x, y, z, s)" by (cases c)
  let ?m = "drawCube_modelMatrix (state w) (rounded_center (x, y, z, s))"
  let ?w1 = "w\<lparr>modelMatrix := ?m,
             effects := effects w @
               drawCube_calls (createCubeVertices x y z s) (drawCube_normalMatrix (modelMatrix w))
                 ?m w\<rparr>"
  from Cons [of ?w1] obtain w' where w': "drawCubes cs ?w1 = Some w'"
    and e: "effects w' = effects ?w1 @ drawCubes_calls cs ?w1"
    and s: "state w' = state ?w1" "slider_value w' = slider_value ?w1"
    by blast
  have "drawCubes_calls cs ?w1 = drawCubes_calls cs (w\<lparr>modelMatrix := ?m\<rparr>)"
    by (rule drawCubes_calls_cong) simp_all
  with w' e s show ?case
    by (simp add: c drawCube_cube Let_def)
qed

lemma animate_effects:
  "\<exists>w'. animate w = Some w'
     \<and> state w' = advance (state w)
     \<and> slider_value w' = slider_value w
     \<and> effects w' = effects w @
         [ClearColor 0 0 0 1, Clear [COLOR_BUFFER_BIT, DEPTH_BUFFER_BIT],
          AngleUpdate X (xRotationAngle (state w) + xRotationSpeed (state w) / 200),
          AngleUpdate Y (yRotationAngle (state w) + yRotationSpeed (state w) / 200),
          AngleUpdate Z (zRotationAngle (state w) + zRotationSpeed (state w) / 200)]
         @ drawCubes_calls
             (carpet_cubes (- 1) (- 1) (canvasSize (state w)) (slider_value w))
             (w\<lparr>state := advance (state w)\<rparr>)
         @ [RequestAnimationFrame]"
proof -
  let ?es = "effects w @
              [ClearColor 0 0 0 1, Clear [COLOR_BUFFER_BIT, DEPTH_BUFFER_BIT],
               AngleUpdate X (xRotationAngle (state w) + xRotationSpeed (state w) / 200),
               AngleUpdate Y (yRotationAngle (state w) + yRotationSpeed (state w) / 200),
               AngleUpdate Z (zRotationAngle (state w) + zRotationSpeed (state w) / 200)]"
  let ?w = "w\<lparr>state := advance (state w), effects := ?es\<rparr>"
  let ?cs = "carpet_cubes (- 1) (- 1) (canvasSize (state w)) (slider_value w)"
  obtain w1 where w1: "drawCubes ?cs ?w = Some w1"
    and e1: "effects w1 = effects ?w @ drawCubes_calls ?cs ?w"
    and s1: "state w1 = state ?w" "slider_value w1 = slider_value ?w"
    using drawCubes_effects by blast
  have a: "animate w = Some (w1\<lparr>effects := effects w1 @ [RequestAnimationFrame]\<rparr>)"
    using w1 by (simp add: animate_def Let_def drawCarpet_drawCubes advance_def)
  have "drawCubes_calls ?cs ?w = drawCubes_calls ?cs (w\<lparr>state := advance (state w)\<rparr>)"
    by (rule drawCubes_calls_cong) simp_all
  with a e1 s1 show ?thesis by simp
qed

text \<open>
  C4, as the script has it. One tick does, in this order: it clears the frame buffer; it
  advances the three spin angles, about x, y and z, by their speed divided by 200; it
  draws the cubes of the carpet one after the other, computing for each cube its model
  matrix from the advanced angles and sending the matrices before the call that draws
  the cube; it requests the next frame.
\<close>

theorem animate_order:
  "\<exists>w'. animate w = Some w'
     \<and> effects w' = effects w @
         [ClearColor 0 0 0 1, Clear [COLOR_BUFFER_BIT, DEPTH_BUFFER_BIT],
          AngleUpdate X (xRotationAngle (state w) + xRotationSpeed (state w) / 200),
          AngleUpdate Y (yRotationAngle (state w) + yRotationSpeed (state w) / 200),
          AngleUpdate Z (zRotationAngle (state w) + zRotationSpeed (state w) / 200)]
         @ drawCubes_calls
             (carpet_cubes (- 1) (- 1) (canvasSize (state w)) (slider_value w))
             (w\<lparr>state := advance (state w)\<rparr>)
         @ [RequestAnimationFrame]"
  using animate_effects [of w] by blast

text \<open>
  The frame buffer is cleared before the first spin angle is advanced, not after: here
  with the speed 200 about the x axis.
\<close>

theorem clear_before_spin:
  "map_option (take 3 \<circ> effects)
     (animate ((initial_world 1)\<lparr>state := initial_state\<lparr>xRotationSpeed := 200\<rparr>\<rparr>))
   = Some [ClearColor 0 0 0 1, Clear [COLOR_BUFFER_BIT, DEPTH_BUFFER_BIT], AngleUpdate X 1]"
proof -
  let ?w = "(initial_world 1)\<lparr>state := initial_state\<lparr>xRotationSpeed := 200\<rparr>\<rparr>"
  obtain w' where "animate ?w = Some w'"
    and "effects w' = effects ?w @
         [ClearColor 0 0 0 1, Clear [COLOR_BUFFER_BIT, DEPTH_BUFFER_BIT],
          AngleUpdate X (xRotationAngle (state ?w) + xRotationSpeed (state ?w) / 200),
          AngleUpdate Y (yRotationAngle (state ?w) + yRotationSpeed (state ?w) / 200),
          AngleUpdate Z (zRotationAngle (state ?w) + zRotationSpeed (state ?w) / 200)]
         @ drawCubes_calls
             (carpet_cubes (- 1) (- 1) (canvasSize (state ?w)) (slider_value ?w))
             (?w\<lparr>state := advance (state ?w)\<rparr>)
         @ [RequestAnimationFrame]"
    using animate_effects [of ?w] by blast
  then show ?thesis by (simp add: initial_world_def initial_state_def)
qed

section \<open>The number of cubes\<close>

lemma carpet_loop:
  "fold (\<lambda>i. fold (\<lambda>j r. case r of None \<Rightarrow> None | Some w' \<Rightarrow> F i j w') [0..<3]) [0..<3] (Some w) =
     Option.bind (Option.bind (Option.bind (Option.bind (Option.bind (Option.bind
       (Option.bind (Option.bind (F 0 0 w) (F 0 1)) (F 0 2)) (F 1 0)) (F 1 1)) (F 1 2))
       (F 2 0)) (F 2 1)) (F 2 2)"
  by (simp add: upt_3 Option.bind_def split: option.splits)

lemma draws_bind:
  assumes "\<And>w. \<exists>w'. f w = Some w' \<and> draws a w w'"
    and "\<And>w. \<exists>w'. g w = Some w' \<and> draws b w w'"
  shows "\<exists>w'. Option.bind (f w) g = Some w' \<and> draws (a + b) w w'"
proof -
  from assms(1) obtain w1 where 1: "f w = Some w1" "draws a w w1" by blast
  from assms(2) obtain w2 where 2: "g w1 = Some w2" "draws b w1 w2" by blast
  from 1 2 show ?thesis by (simp add: draws_def)
qed

lemma carpet_loop_draws:
  assumes "\<And>i j w. \<exists>w'. F i j w = Some w' \<and> draws (if i = 1 \<and> j = 1 then 1 else k) w w'"
  shows "\<exists>w'. fold (\<lambda>i. fold (\<lambda>j r. case r of None \<Rightarrow> None | Some w' \<Rightarrow> F i j w') [0..<3])
                 [0..<3] (Some w) = Some w' \<and> draws (8 * k + 1) w w'"
proof -
  have c: "\<exists>w'. F (Suc 0) (Suc 0) w = Some w' \<and> draws (Suc 0) w w'" for w
    using assms [of 1 1 w] by simp
  have o: "\<exists>w'. F i j w = Some w' \<and> draws k w w'" if "\<not> (i = 1 \<and> j = 1)" for i j w
    using assms [of i j w] that by (auto split: if_splits)
  have e: "k + k + k + k + 1 + k + k + k + k = 8 * k + 1" by simp
  have "\<exists>w'. Option.bind (Option.bind (Option.bind (Option.bind (Option.bind (Option.bind
       (Option.bind (Option.bind (F 0 0 w) (F 0 1)) (F 0 2)) (F 1 0)) (F 1 1)) (F 1 2))
       (F 2 0)) (F 2 1)) (F 2 2) = Some w' \<and> draws (k + k + k + k + 1 + k + k + k + k) w w'"
    by (intro draws_bind o) (simp_all add: c)
  then show ?thesis unfolding carpet_loop e .
qed

lemma length_createCubeVertices64: "length (createCubeVertices64 x y z s) = 108"
  by (simp add: createCubeVertices64_def Let_def)

lemma draw_calls_drawCube_calls: "draw_calls (es @ drawCube_calls vs n m w) = draw_calls es + 1"
  by (simp add: draw_calls_def drawCube_calls_def)

lemma drawCube64_draws:
  "\<exists>w'. drawCube64 (createCubeVertices64 x y z s) w = Some w' \<and> draws 1 w w'"
  by (simp add: drawCube64_def drawCube_center64_def length_createCubeVertices64 Let_def
        draws_def draw_calls_drawCube_calls)

lemma drawCarpet64_step:
  assumes "\<And>x y s w. n > 1 \<Longrightarrow> \<exists>w'. drawCarpet64 x y s (n - 1) w = Some w' \<and> draws k w w'"
    and "\<not> n > 1 \<Longrightarrow> k = 0"
  shows "\<exists>w'. drawCarpet64 x y s n w = Some w' \<and> draws (8 * k + 1) w w'"
proof -
  have "\<exists>w'. (if i = 1 \<and> j = 1 then
                   drawCube64 (createCubeVertices64
                     (js_add (js_add x (js_mul (real i) (js_div s 3))) (js_div (js_div s 3) 2))
                     (js_add (js_add y (js_mul (real j) (js_div s 3))) (js_div (js_div s 3) 2))
                     (js_div (js_div s 3) 2) (js_div s 3)) w
                 else if n > 1 then
                   drawCarpet64 (js_add x (js_mul (real i) (js_div s 3)))
                     (js_add y (js_mul (real j) (js_div s 3))) (js_div s 3) (n - 1) w
                 else Some w) = Some w' \<and> draws (if i = 1 \<and> j = 1 then 1 else k) w w'"
    for i j :: nat and w
  proof (cases "i = 1 \<and> j = 1")
    case True
    then show ?thesis using drawCube64_draws by simp
  next
    case False
    show ?thesis
      unfolding if_not_P [OF False]
    proof (cases "n > 1")
      case True
      then show "\<exists>w'. (if n > 1 then
                   drawCarpet64 (js_add x (js_mul (real i) (js_div s 3)))
                     (js_add y (js_mul (real j) (js_div s 3))) (js_div s 3) (n - 1) w
                 else Some w) = Some w' \<and> draws k w w'"
        using assms(1) by simp
    next
      case False
      then show "\<exists>w'. (if n > 1 then
                   drawCarpet64 (js_add x (js_mul (real i) (js_div s 3)))
                     (js_add y (js_mul (real j) (js_div s 3))) (js_div s 3) (n - 1) w
                 else Some w) = Some w' \<and> draws k w w'"
        using assms(2) by (simp add: draws_def)
    qed
  qed
  then show ?thesis
    unfolding drawCarpet64.simps [of x y s n w] Let_def by (rule carpet_loop_draws)
qed

lemma drawCarpet64_draws:
  "\<exists>w'. drawCarpet64 x y s n w = Some w' \<and> draws (\<Sum>k<nat (max 1 n). 8 ^ k) w w'"
proof (induction "nat n" arbitrary: n x y s w)
  case 0
  then have n: "\<not> n > 1" "nat (max 1 n) = 1" by simp_all
  show ?case
    using drawCarpet64_step [of n 0 x y s w] n by simp
next
  case (Suc m)
  show ?case
  proof (cases "n > 1")
    case False
    then have n: "nat (max 1 n) = 1" by simp
    show ?thesis
      using drawCarpet64_step [of n 0 x y s w] n False by simp
  next
    case True
    with Suc.hyps(2) have m: "m = nat (n - 1)" by simp
    from True have n: "nat (max 1 n) = Suc (nat (max 1 (n - 1)))" by simp
    show ?thesis
      unfolding n sum_pow8
      using drawCarpet64_step [of n "\<Sum>k<nat (max 1 (n - 1)). 8 ^ k" x y s w]
        Suc.hyps(1) [OF m] True by simp
  qed
qed

lemma draw_calls_append: "draw_calls (es @ es') = draw_calls es + draw_calls es'"
  by (simp add: draw_calls_def)

lemma draw_calls_one_cube: "draw_calls (drawCube_calls vs n m w) = 1"
  by (simp add: draw_calls_def drawCube_calls_def)

lemma draw_calls_drawCubes_calls: "draw_calls (drawCubes_calls cs w) = length cs"
proof (induction cs arbitrary: w)
  case Nil
  show ?case by (simp add: draw_calls_def)
next
  case (Cons c cs)
  obtain x y z s where c: "c = (x, y, z, s)" by (cases c)
  show ?case
    by (simp add: c Let_def draw_calls_append Cons draw_calls_one_cube)
qed

lemma drawCarpet_draw_calls:
  "\<exists>w'. drawCarpet x y s n w = Some w'
     \<and> draw_calls (effects w') = draw_calls (effects w) + length (carpet_cubes x y s n)"
proof -
  obtain w' where "drawCubes (carpet_cubes x y s n) w = Some w'"
    and "effects w' = effects w @ drawCubes_calls (carpet_cubes x y s n) w"
    using drawCubes_effects by blast
  then show ?thesis
    by (simp add: drawCarpet_drawCubes draw_calls_append draw_calls_drawCubes_calls)
qed

text \<open>
  C1. For every \<open>iterations \<ge> 1\<close> (and every size, positive or not), \<^verbatim>\<open>drawCarpet\<close> returns,
  and it has then drawn \<open>8\<^sup>0 + 8\<^sup>1 + \<dots> + 8\<^bsup>iterations - 1\<^esup>\<close> cubes: so many calls of
  \<^verbatim>\<open>gl.drawArrays\<close> have been added to the calls made before. The number does not depend on
  the arithmetic: it is the same in the binary64 reading and in the exact reading.
\<close>

theorem carpet_cube_count:
  assumes "1 \<le> iterations"
  shows "(\<exists>w'. drawCarpet64 x y size' iterations w = Some w'
            \<and> draw_calls (effects w') = draw_calls (effects w) + (\<Sum>k<nat iterations. 8 ^ k))
         \<and> (\<exists>w'. drawCarpet x y size' iterations w = Some w'
            \<and> draw_calls (effects w') = draw_calls (effects w) + (\<Sum>k<nat iterations. 8 ^ k))"
proof -
  from assms have m: "max 1 iterations = iterations" by simp
  have "\<exists>w'. drawCarpet64 x y size' iterations w = Some w'
            \<and> draw_calls (effects w') = draw_calls (effects w) + (\<Sum>k<nat iterations. 8 ^ k)"
    using drawCarpet64_draws [of x y size' iterations w] unfolding m draws_def by blast
  moreover
  have "\<exists>w'. drawCarpet x y size' iterations w = Some w'
            \<and> draw_calls (effects w') = draw_calls (effects w) + (\<Sum>k<nat iterations. 8 ^ k)"
    using drawCarpet_draw_calls [of x y size' iterations w] assms
    by (simp add: length_carpet_cubes)
  ultimately show ?thesis by blast
qed

text \<open>With two iterations, on the square that \<^verbatim>\<open>animate\<close> draws: nine cubes.\<close>

theorem carpet_cube_count_witness:
  "(1::int) \<le> 2
   \<and> (\<exists>w'. drawCarpet64 (- 1) (- 1) 2 2 (initial_world 2) = Some w' \<and> draw_calls (effects w') = 9)
   \<and> (\<exists>w'. drawCarpet (- 1) (- 1) 2 2 (initial_world 2) = Some w' \<and> draw_calls (effects w') = 9)"
proof -
  have e: "draw_calls (effects (initial_world 2)) = 0"
    by (simp add: initial_world_def draw_calls_def)
  have s: "(\<Sum>k<nat 2. (8::nat) ^ k) = 9" by (simp add: numeral_2_eq_2)
  show ?thesis
    using carpet_cube_count [of 2 "- 1" "- 1" 2 "initial_world 2"] unfolding e s by simp
qed

section \<open>The last level\<close>

lemma drawCarpet64_final:
  "n \<le> 1 \<Longrightarrow> drawCarpet64 x y s n w =
     drawCube64 (createCubeVertices64
       (js_add (js_add x (js_mul 1 (js_div s 3))) (js_div (js_div s 3) 2))
       (js_add (js_add y (js_mul 1 (js_div s 3))) (js_div (js_div s 3) 2))
       (js_div (js_div s 3) 2) (js_div s 3)) w"
  unfolding drawCarpet64.simps [of x y s n w] Let_def carpet_loop by simp

lemma drawCube64_cube:
  "\<exists>w'. drawCube64 (createCubeVertices64 x y z s) w = Some w'
     \<and> effects w' = effects w @ drawCube_calls (createCubeVertices64 x y z s)
                        (drawCube_normalMatrix (modelMatrix w)) (modelMatrix w') w"
  by (simp add: drawCube64_def drawCube_center64_def length_createCubeVertices64 Let_def)

lemma drawCarpet64_last:
  "\<exists>w'. drawCarpet64 x y s 1 w = Some w'
      \<and> effects w' = effects w @
          drawCube_calls
            (createCubeVertices64
               (js_add (js_add x (js_mul 1 (js_div s 3))) (js_div (js_div s 3) 2))
               (js_add (js_add y (js_mul 1 (js_div s 3))) (js_div (js_div s 3) 2))
               (js_div (js_div s 3) 2) (js_div s 3))
            (drawCube_normalMatrix (modelMatrix w)) (modelMatrix w') w
      \<and> draw_calls (effects w') = draw_calls (effects w) + 1"
proof -
  let ?vs = "createCubeVertices64
               (js_add (js_add x (js_mul 1 (js_div s 3))) (js_div (js_div s 3) 2))
               (js_add (js_add y (js_mul 1 (js_div s 3))) (js_div (js_div s 3) 2))
               (js_div (js_div s 3) 2) (js_div s 3)"
  obtain w' where w': "drawCube64 ?vs w = Some w'"
    and e: "effects w' = effects w @
              drawCube_calls ?vs (drawCube_normalMatrix (modelMatrix w)) (modelMatrix w') w"
    using drawCube64_cube by blast
  from e have "draw_calls (effects w') = draw_calls (effects w) + 1"
    by (simp add: draw_calls_drawCube_calls)
  with w' e show ?thesis by (simp add: drawCarpet64_final)
qed

lemma two_thirds: "js_div 2 3 = 6004799503160661 / 9007199254740992"
  unfolding js_div_def
  by (subst double_eval [where e = "- 1"]) (simp_all add: round_half_even_def Let_def)

lemma one_third: "js_div 1 3 = 6004799503160661 / 18014398509481984"
  unfolding js_div_def
  by (subst double_eval [where e = "- 2"]) (simp_all add: round_half_even_def Let_def)

lemma once_two_thirds:
  "js_mul 1 (6004799503160661 / 9007199254740992) = 6004799503160661 / 9007199254740992"
  unfolding js_mul_def
  by (subst double_eval [where e = "- 1"]) (simp_all add: round_half_even_def Let_def)

lemma corner_two_thirds:
  "js_add (- 1) (6004799503160661 / 9007199254740992) = - (3002399751580331 / 9007199254740992)"
  unfolding js_add_def
  by (subst double_eval [where e = "- 2"]) (simp_all add: round_half_even_def Let_def)

lemma half_two_thirds:
  "js_div (6004799503160661 / 9007199254740992) 2 = 6004799503160661 / 18014398509481984"
  unfolding js_div_def
  by (subst double_eval [where e = "- 2"]) (simp_all add: round_half_even_def Let_def)

lemma corner_plus_half:
  "js_add (- (3002399751580331 / 9007199254740992)) (6004799503160661 / 18014398509481984)
     = - (1 / 18014398509481984)"
  unfolding js_add_def
  by (subst double_eval [where e = "- 54"]) (simp_all add: round_half_even_def Let_def)

lemma center_minus_half:
  "js_sub (- (1 / 18014398509481984)) (6004799503160661 / 18014398509481984)
     = - (3002399751580331 / 9007199254740992)"
  unfolding js_sub_def
  by (subst double_eval [where e = "- 2"]) (simp_all add: round_half_even_def Let_def)

lemma zero_minus_half:
  "js_sub 0 (6004799503160661 / 18014398509481984) = - (6004799503160661 / 18014398509481984)"
  unfolding js_sub_def
  by (subst double_eval [where e = "- 2"]) (simp_all add: round_half_even_def Let_def)

text \<open>
  C2, as the script has it. With one iteration left, the centre cell alone gives a cube:
  \<^verbatim>\<open>drawCarpet\<close> returns, and it has added the calls of one \<^verbatim>\<open>drawCube\<close>, with one call of
  \<^verbatim>\<open>gl.drawArrays\<close>, for the cube in the middle of the square and of a third of its size,
  all in binary64 arithmetic. On the square with corner \<open>(-1, -1)\<close> and size 2 the size of
  this cube is the binary64 number nearest to \<open>2/3\<close>, and its centre is
  \<open>(-2\<^sup>-\<^sup>5\<^sup>4, -2\<^sup>-\<^sup>5\<^sup>4, h)\<close> with \<open>h\<close> the binary64 number nearest to \<open>1/3\<close>.
\<close>

theorem final_level_center_only:
  "(\<exists>w'. drawCarpet64 x y size' 1 w = Some w'
      \<and> effects w' = effects w @
          drawCube_calls
            (createCubeVertices64
               (js_add (js_add x (js_mul 1 (js_div size' 3))) (js_div (js_div size' 3) 2))
               (js_add (js_add y (js_mul 1 (js_div size' 3))) (js_div (js_div size' 3) 2))
               (js_div (js_div size' 3) 2) (js_div size' 3))
            (drawCube_normalMatrix (modelMatrix w)) (modelMatrix w') w
      \<and> draw_calls (effects w') = draw_calls (effects w) + 1)
   \<and> (\<exists>w'. drawCarpet64 (- 1) (- 1) 2 1 w = Some w'
      \<and> effects w' = effects w @
          drawCube_calls
            (createCubeVertices64 (- (1 / 18014398509481984)) (- (1 / 18014398509481984))
               (6004799503160661 / 18014398509481984) (6004799503160661 / 9007199254740992))
            (drawCube_normalMatrix (modelMatrix w)) (modelMatrix w') w
      \<and> draw_calls (effects w') = draw_calls (effects w) + 1)
   \<and> js_div 2 3 = 6004799503160661 / 9007199254740992
   \<and> js_div 1 3 = 6004799503160661 / 18014398509481984"
proof -
  from drawCarpet64_last [of "- 1" "- 1" 2 w]
  have "\<exists>w'. drawCarpet64 (- 1) (- 1) 2 1 w = Some w'
      \<and> effects w' = effects w @
          drawCube_calls
            (createCubeVertices64 (- (1 / 18014398509481984)) (- (1 / 18014398509481984))
               (6004799503160661 / 18014398509481984) (6004799503160661 / 9007199254740992))
            (drawCube_normalMatrix (modelMatrix w)) (modelMatrix w') w
      \<and> draw_calls (effects w') = draw_calls (effects w) + 1"
    by (simp add: two_thirds once_two_thirds corner_two_thirds half_two_thirds corner_plus_half)
  with drawCarpet64_last [of x y size' w] two_thirds one_third show ?thesis by blast
qed

text \<open>
  The centre of this cube is not \<open>(0, 0, 1/3)\<close>, and the vertices sent to the buffer show
  it: their first coordinate is \<open>-0.33333333333333337\<close>, where the cube about
  \<open>(0, 0, 1/3)\<close> of size \<open>2/3\<close> has \<open>-0.3333333333333333\<close>.
\<close>

theorem center_beside_origin:
  "effects_of (drawCarpet64 (- 1) (- 1) 2 1 (initial_world 1)) ! 5 =
     BufferData (createCubeVertices64 (- (1 / 18014398509481984)) (- (1 / 18014398509481984))
                   (6004799503160661 / 18014398509481984) (6004799503160661 / 9007199254740992))
   \<and> createCubeVertices64 (- (1 / 18014398509481984)) (- (1 / 18014398509481984))
         (6004799503160661 / 18014398509481984) (6004799503160661 / 9007199254740992) ! 0
       = - (3002399751580331 / 9007199254740992)
   \<and> createCubeVertices64 0 0 (js_div 1 3) (js_div 2 3) ! 0
       = - (6004799503160661 / 18014398509481984)
   \<and> - (1 / 18014398509481984) \<noteq> (0 :: real)"
proof -
  let ?vs = "createCubeVertices64 (- (1 / 18014398509481984)) (- (1 / 18014398509481984))
                   (6004799503160661 / 18014398509481984) (6004799503160661 / 9007199254740992)"
  from drawCarpet64_last [of "- 1" "- 1" 2 "initial_world 1"]
  obtain w' where "drawCarpet64 (- 1) (- 1) 2 1 (initial_world 1) = Some w'"
    and "effects w' = effects (initial_world 1) @
          drawCube_calls ?vs (drawCube_normalMatrix (modelMatrix (initial_world 1)))
            (modelMatrix w') (initial_world 1)"
    by (auto simp add: two_thirds once_two_thirds corner_two_thirds half_two_thirds
          corner_plus_half)
  then have "effects_of (drawCarpet64 (- 1) (- 1) 2 1 (initial_world 1)) ! 5 = BufferData ?vs"
    by (simp add: effects_of_def initial_world_def drawCube_calls_def)
  moreover have "?vs ! 0 = - (3002399751580331 / 9007199254740992)"
    by (simp add: createCubeVertices64_def Let_def half_two_thirds center_minus_half)
  moreover have "createCubeVertices64 0 0 (js_div 1 3) (js_div 2 3) ! 0
       = - (6004799503160661 / 18014398509481984)"
    by (simp add: createCubeVertices64_def Let_def two_thirds half_two_thirds zero_minus_half)
  ultimately show ?thesis by simp
qed

section \<open>The spin angles\<close>

lemma animate64_state:
  "\<exists>w'. animate64 w = Some w' \<and> state w' = advance64 (state w)
        \<and> slider_value w' = slider_value w"
proof -
  let ?w = "w\<lparr>state := advance64 (state w),
              effects := effects w @
                [ClearColor 0 0 0 1, Clear [COLOR_BUFFER_BIT, DEPTH_BUFFER_BIT],
                 AngleUpdate X (js_add (xRotationAngle (state w)) (js_div (xRotationSpeed (state w)) 200)),
                 AngleUpdate Y (js_add (yRotationAngle (state w)) (js_div (yRotationSpeed (state w)) 200)),
                 AngleUpdate Z (js_add (zRotationAngle (state w)) (js_div (zRotationSpeed (state w)) 200))]\<rparr>"
  obtain w1 where w1: "drawCarpet64 (- 1) (- 1) (canvasSize (state w)) (slider_value w) ?w = Some w1"
    and s1: "state w1 = state ?w" "slider_value w1 = slider_value ?w"
    using drawCarpet64_draws [of "- 1" "- 1" "canvasSize (state w)" "slider_value w" ?w]
    unfolding draws_def by blast
  have "animate64 w = Some (w1\<lparr>effects := effects w1 @ [RequestAnimationFrame]\<rparr>)"
    using w1 by (simp add: animate64_def Let_def advance64_def)
  with s1 show ?thesis by simp
qed

lemma ticks64_state:
  "\<exists>w'. ticks64 n w = Some w' \<and> state w' = (advance64 ^^ n) (state w)"
proof (induction n arbitrary: w)
  case 0
  show ?case by simp
next
  case (Suc n)
  obtain w1 where w1: "animate64 w = Some w1" and s1: "state w1 = advance64 (state w)"
    using animate64_state by blast
  from Suc [of w1] show ?case by (simp add: w1 s1 funpow_swap1)
qed

lemma js_div_200: "js_div 200 200 = 1"
  using double_of_int [of 1] by (simp add: js_div_def)

lemma advance64_speeds:
  "xRotationSpeed ((advance64 ^^ n) s) = xRotationSpeed s
   \<and> yRotationSpeed ((advance64 ^^ n) s) = yRotationSpeed s
   \<and> zRotationSpeed ((advance64 ^^ n) s) = zRotationSpeed s"
  by (induction n) (simp_all add: advance64_def)

lemma advance64_x:
  "xRotationAngle (advance64 s) = js_add (xRotationAngle s) (js_div (xRotationSpeed s) 200)"
  by (simp add: advance64_def)

lemma advance64_200:
  assumes "xRotationSpeed s = 200" and "xRotationAngle s = of_int k" and "0 \<le> k"
    and "k + int n < 2 ^ 53"
  shows "xRotationAngle ((advance64 ^^ n) s) = of_int (k + int n)"
  using assms(4)
proof (induction n)
  case 0
  show ?case by (simp add: assms(2))
next
  case (Suc n)
  then have IH: "xRotationAngle ((advance64 ^^ n) s) = of_int (k + int n)" by simp
  have sp: "xRotationSpeed ((advance64 ^^ n) s) = 200"
    using advance64_speeds [of n s] assms(1) by simp
  from Suc.prems assms(3) have "\<bar>k + int n + 1\<bar> < 2 ^ 53" by simp
  from double_of_int [OF this]
  have "double (of_int (k + int n) + 1) = of_int (k + int n) + 1" by simp
  then show ?case
    by (simp add: advance64_x IH sp js_div_200 js_add_def add.commute add.left_commute)
qed

lemma js_div_20: "js_div 20 200 = 3602879701896397 / 36028797018963968"
  by (simp add: js_div_def double_tenth)

lemma add01: "js_add 0 (3602879701896397 / 36028797018963968) = 3602879701896397 / 36028797018963968"
  unfolding js_add_def
  by (subst double_eval [where e = "- 4"]) (simp_all add: round_half_even_def Let_def)

lemma add02: "js_add (3602879701896397 / 36028797018963968) (3602879701896397 / 36028797018963968)
    = 3602879701896397 / 18014398509481984"
  unfolding js_add_def
  by (subst double_eval [where e = "- 3"]) (simp_all add: round_half_even_def Let_def)

lemma add03: "js_add (3602879701896397 / 18014398509481984) (3602879701896397 / 36028797018963968)
    = 1351079888211149 / 4503599627370496"
  unfolding js_add_def
  by (subst double_eval [where e = "- 2"]) (simp_all add: round_half_even_def Let_def)

lemma add04: "js_add (1351079888211149 / 4503599627370496) (3602879701896397 / 36028797018963968)
    = 3602879701896397 / 9007199254740992"
  unfolding js_add_def
  by (subst double_eval [where e = "- 2"]) (simp_all add: round_half_even_def Let_def)

lemma add05: "js_add (3602879701896397 / 9007199254740992) (3602879701896397 / 36028797018963968)
    = 1 / 2"
  unfolding js_add_def
  by (subst double_eval [where e = "- 1"]) (simp_all add: round_half_even_def Let_def)

lemma add06: "js_add (1 / 2) (3602879701896397 / 36028797018963968)
    = 5404319552844595 / 9007199254740992"
  unfolding js_add_def
  by (subst double_eval [where e = "- 1"]) (simp_all add: round_half_even_def Let_def)

lemma add07: "js_add (5404319552844595 / 9007199254740992) (3602879701896397 / 36028797018963968)
    = 3152519739159347 / 4503599627370496"
  unfolding js_add_def
  by (subst double_eval [where e = "- 1"]) (simp_all add: round_half_even_def Let_def)

lemma add08: "js_add (3152519739159347 / 4503599627370496) (3602879701896397 / 36028797018963968)
    = 7205759403792793 / 9007199254740992"
  unfolding js_add_def
  by (subst double_eval [where e = "- 1"]) (simp_all add: round_half_even_def Let_def)

lemma add09: "js_add (7205759403792793 / 9007199254740992) (3602879701896397 / 36028797018963968)
    = 2026619832316723 / 2251799813685248"
  unfolding js_add_def
  by (subst double_eval [where e = "- 1"]) (simp_all add: round_half_even_def Let_def)

lemma add10: "js_add (2026619832316723 / 2251799813685248) (3602879701896397 / 36028797018963968)
    = 9007199254740991 / 9007199254740992"
  unfolding js_add_def
  by (subst double_eval [where e = "- 1"]) (simp_all add: round_half_even_def Let_def)

lemma funpow_10: "(f ^^ 10) x = f (f (f (f (f (f (f (f (f (f x)))))))))"
  by (simp add: eval_nat_numeral)

text \<open>
  C7, as the script has it. A tick returns, and it replaces each spin angle by the
  binary64 number nearest to the angle plus the rounded quotient of the speed of its axis
  by 200; the speeds stay. With the speed 200 about the x axis the quotient is 1, and one
  tick replaces the angle about the x axis by the binary64 number nearest to the angle
  plus 1. From an angle that is a natural number \<open>k\<close>, \<open>n\<close> ticks at this speed return and
  leave the angle \<open>k + n\<close>, as long as this is below \<open>2\<^sup>5\<^sup>3\<close>.
\<close>

theorem spin_per_tick:
  "(\<exists>w'. animate64 w = Some w'
      \<and> xRotationAngle (state w') = js_add (xRotationAngle (state w)) (js_div (xRotationSpeed (state w)) 200)
      \<and> yRotationAngle (state w') = js_add (yRotationAngle (state w)) (js_div (yRotationSpeed (state w)) 200)
      \<and> zRotationAngle (state w') = js_add (zRotationAngle (state w)) (js_div (zRotationSpeed (state w)) 200)
      \<and> xRotationSpeed (state w') = xRotationSpeed (state w)
      \<and> yRotationSpeed (state w') = yRotationSpeed (state w)
      \<and> zRotationSpeed (state w') = zRotationSpeed (state w))
   \<and> (xRotationSpeed (state w) = 200 \<longrightarrow>
        (\<exists>w'. animate64 w = Some w'
           \<and> xRotationAngle (state w') = double (xRotationAngle (state w) + 1)))
   \<and> (\<exists>w'. ticks64 n w = Some w'
        \<and> (xRotationSpeed (state w) = 200 \<and> xRotationAngle (state w) = of_int k \<and> 0 \<le> k
             \<and> k + int n < 2 ^ 53
           \<longrightarrow> xRotationAngle (state w') = of_int k + real n))"
proof -
  obtain w1 where w1: "animate64 w = Some w1" and s1: "state w1 = advance64 (state w)"
    using animate64_state by blast
  obtain wn where wn: "ticks64 n w = Some wn" and sn: "state wn = (advance64 ^^ n) (state w)"
    using ticks64_state by blast
  have "xRotationAngle (state wn) = of_int k + real n"
    if "xRotationSpeed (state w) = 200" "xRotationAngle (state w) = of_int k" "0 \<le> k"
      "k + int n < 2 ^ 53"
    using advance64_200 [OF that] by (simp add: sn)
  with w1 s1 wn show ?thesis
    by (simp add: advance64_def js_div_200 js_add_def)
qed

theorem spin_per_tick_witness:
  "xRotationSpeed (state ((initial_world 1)\<lparr>state := initial_state\<lparr>xRotationSpeed := 200\<rparr>\<rparr>)) = 200
   \<and> xRotationAngle (state ((initial_world 1)\<lparr>state := initial_state\<lparr>xRotationSpeed := 200\<rparr>\<rparr>)) = of_int 0
   \<and> (0::int) \<le> 0 \<and> 0 + int 7 < 2 ^ 53
   \<and> (\<exists>w'. animate64 ((initial_world 1)\<lparr>state := initial_state\<lparr>xRotationSpeed := 200\<rparr>\<rparr>) = Some w'
         \<and> xRotationAngle (state w') = 1)
   \<and> (\<exists>w'. ticks64 7 ((initial_world 1)\<lparr>state := initial_state\<lparr>xRotationSpeed := 200\<rparr>\<rparr>) = Some w'
         \<and> xRotationAngle (state w') = 7)"
proof -
  let ?w = "(initial_world 1)\<lparr>state := initial_state\<lparr>xRotationSpeed := 200\<rparr>\<rparr>"
  have i: "xRotationSpeed (state ?w) = 200" "xRotationAngle (state ?w) = of_int 0"
    by (simp_all add: initial_world_def initial_state_def)
  have d: "double (0 + 1) = 1" using double_of_int [of 1] by simp
  note t = spin_per_tick [of ?w 7 0]
  from t i d have "\<exists>w'. animate64 ?w = Some w' \<and> xRotationAngle (state w') = 1"
    by auto
  moreover from t i have "\<exists>w'. ticks64 7 ?w = Some w' \<and> xRotationAngle (state w') = 7"
    by auto
  ultimately show ?thesis using i by simp
qed

text \<open>
  At other speeds the roundings add up: ten ticks at the speed 20 about the x axis, from
  the angle 0, leave the angle \<open>0.9999999999999999\<close> and not 1.
\<close>

theorem ten_ticks_not_exact:
  "map_option (xRotationAngle \<circ> state)
     (ticks64 10 ((initial_world 1)\<lparr>state := initial_state\<lparr>xRotationSpeed := 20\<rparr>\<rparr>))
     = Some (9007199254740991 / 9007199254740992)
   \<and> 9007199254740991 / 9007199254740992 \<noteq> (0 + 10 * (20 / 200) :: real)"
proof -
  let ?w = "(initial_world 1)\<lparr>state := initial_state\<lparr>xRotationSpeed := 20\<rparr>\<rparr>"
  obtain w' where w': "ticks64 10 ?w = Some w'" and s: "state w' = (advance64 ^^ 10) (state ?w)"
    using ticks64_state by blast
  have "xRotationAngle ((advance64 ^^ 10) (state ?w)) = 9007199254740991 / 9007199254740992"
    unfolding funpow_10
    by (simp add: advance64_def initial_world_def initial_state_def js_div_20
          add01 add02 add03 add04 add05 add06 add07 add08 add09 add10)
  with w' s show ?thesis by simp
qed

section \<open>The model matrix of a cube\<close>

lemma drawCube_modelMatrix_product:
  "drawCube_modelMatrix s (centerX, centerY, centerZ) =
     canvasRotationMatrix s * Scale (canvasScale s) (canvasScale s) (canvasScale s)
     * Translate centerX centerY centerZ
     * RotX (xRotationAngle s) * RotY (yRotationAngle s) * RotZ (zRotationAngle s)
     * Translate (- centerX) (- centerY) (- centerZ)"
proof -
  have "mat4_scale mat4_create (k, k, k) = Scale k k k" for k
    using mat4_scale_eq [of mat4_create k k k] mult_1_left [of "Scale k k k"]
    by (simp add: one_mat4_def)
  then show ?thesis
    by (simp add: drawCube_modelMatrix_def Let_def mat4_translate_eq mat4_rotateX_eq
          mat4_rotateY_eq mat4_rotateZ_eq times_mat4_def [symmetric])
qed

lemma uploads_append: "uploads u (es @ es') = uploads u es @ uploads u es'"
  by (induction u es rule: uploads.induct) simp_all

lemma uploads_drawCube_calls:
  "uploads uNormalMatrix (drawCube_calls vs n m w) = [n]"
  "uploads uModelMatrix (drawCube_calls vs n m w) = [m]"
  by (simp_all add: drawCube_calls_def)

lemma drawCube_Some:
  assumes "drawCube vertices w = Some w'"
  obtains c where "drawCube_center vertices = Some c"
    and "w' = w\<lparr>modelMatrix := drawCube_modelMatrix (state w) c,
              effects := effects w @ drawCube_calls vertices (drawCube_normalMatrix (modelMatrix w))
                 (drawCube_modelMatrix (state w) c) w\<rparr>"
  using assms by (auto simp: drawCube_def Let_def split: option.splits)

text \<open>
  C3, as the script has it. For every call of \<^verbatim>\<open>drawCube\<close> and every state, the model
  matrix that the call computes and sends is the product of the drag rotation, the
  uniform scale, the translation to \<open>c\<close>, the rotations about x, y and z by the spin
  angles, and the translation back, in this order, where \<open>c\<close> is the centre that the call
  derives from the vertices it is given.
\<close>

theorem drawCube_model_matrix:
  assumes "drawCube vertices w = Some w'"
  shows "\<exists>centerX centerY centerZ.
           drawCube_center vertices = Some (centerX, centerY, centerZ)
           \<and> modelMatrix w' =
               canvasRotationMatrix (state w)
               * Scale (canvasScale (state w)) (canvasScale (state w)) (canvasScale (state w))
               * Translate centerX centerY centerZ
               * RotX (xRotationAngle (state w)) * RotY (yRotationAngle (state w))
               * RotZ (zRotationAngle (state w))
               * Translate (- centerX) (- centerY) (- centerZ)
           \<and> uploads uModelMatrix (effects w') = uploads uModelMatrix (effects w) @ [modelMatrix w']"
proof -
  from assms obtain c where c: "drawCube_center vertices = Some c"
    and w': "w' = w\<lparr>modelMatrix := drawCube_modelMatrix (state w) c,
              effects := effects w @ drawCube_calls vertices (drawCube_normalMatrix (modelMatrix w))
                 (drawCube_modelMatrix (state w) c) w\<rparr>"
    by (rule drawCube_Some)
  obtain cx cy cz where "c = (cx, cy, cz)" by (cases c)
  with c w' show ?thesis
    by (simp add: drawCube_modelMatrix_product uploads_append uploads_drawCube_calls)
qed

lemma Math_round_thirds:
  "Math_round (10000 / 3) = 3333" "Math_round (- (10000 / 3)) = - 3333"
  "Math_round (20000 / 3) = 6667" "Math_round 0 = 0"
  by (simp_all add: Math_round_def)

lemma rounded_center_first_cube: "rounded_center (0, 0, 1 / 3, 2 / 3) = (0, 0, 6667 / 20000)"
  by (simp add: rounded_center_def Math_round_thirds)

theorem drawCube_model_matrix_witness:
  "\<exists>w'. drawCube (createCubeVertices 0 0 (1 / 3) (2 / 3))
            ((initial_world 1)\<lparr>state := initial_state\<lparr>xRotationAngle := pi\<rparr>\<rparr>) = Some w'
     \<and> modelMatrix w' =
          mat4_create * Scale 1 1 1 * Translate 0 0 (6667 / 20000)
          * RotX pi * RotY 0 * RotZ 0 * Translate 0 0 (- (6667 / 20000))"
proof -
  let ?w = "(initial_world 1)\<lparr>state := initial_state\<lparr>xRotationAngle := pi\<rparr>\<rparr>"
  obtain w' where w': "drawCube (createCubeVertices 0 0 (1 / 3) (2 / 3)) ?w = Some w'"
    using drawCube_createCubeVertices by blast
  from drawCube_model_matrix [OF w'] obtain cx cy cz
    where c: "drawCube_center (createCubeVertices 0 0 (1 / 3) (2 / 3)) = Some (cx, cy, cz)"
      and m: "modelMatrix w' =
               canvasRotationMatrix (state ?w)
               * Scale (canvasScale (state ?w)) (canvasScale (state ?w)) (canvasScale (state ?w))
               * Translate cx cy cz
               * RotX (xRotationAngle (state ?w)) * RotY (yRotationAngle (state ?w))
               * RotZ (zRotationAngle (state ?w))
               * Translate (- cx) (- cy) (- cz)"
    by blast
  from c have "cx = 0" "cy = 0" "cz = 6667 / 20000"
    by (simp_all add: drawCube_center_cube rounded_center_first_cube)
  with m have "modelMatrix w' =
          mat4_create * Scale 1 1 1 * Translate 0 0 (6667 / 20000)
          * RotX pi * RotY 0 * RotZ 0 * Translate 0 0 (- (6667 / 20000))"
    by (simp add: initial_state_def initial_world_def)
  with w' show ?thesis by blast
qed

text \<open>
  With the centre of the cube itself in the place of \<open>c\<close> the product is another matrix: the
  one cube of the carpet of \<^verbatim>\<open>animate\<close> with one iteration, centre \<open>(0, 0, 1/3)\<close> and size
  \<open>2/3\<close>, turned by \<open>\<pi>\<close> about x.
\<close>

theorem pivot_is_not_exact_center:
  "map_option modelMatrix
     (drawCube (createCubeVertices 0 0 (1 / 3) (2 / 3))
        ((initial_world 1)\<lparr>state := initial_state\<lparr>xRotationAngle := pi\<rparr>\<rparr>))
   \<noteq> Some (mat4_create * Scale 1 1 1 * Translate 0 0 (1 / 3)
            * RotX pi * RotY 0 * RotZ 0 * Translate 0 0 (- (1 / 3)))"
  by (simp add: drawCube_cube rounded_center_first_cube drawCube_modelMatrix_product
        initial_state_def initial_world_def times_mat4_def mat4_multiply_def mat4_create_def
        Scale_def Translate_def RotX_def RotY_def RotZ_def)

section \<open>Dragging\<close>

lemma handleMouseMove_rotation:
  assumes "mouseDown s"
  shows "canvasRotationMatrix (handleMouseMove (x1, y1) s) =
           (RotY (dragSensitivity s * (x1 - ToNumber (lastMouseX s)))
            * RotX (dragSensitivity s * (y1 - ToNumber (lastMouseY s))))
           * canvasRotationMatrix s"
proof -
  have "mat4_rotate mat4_create t (0, 1, 0) = Some (RotY t)" for t
    using mat4_rotate_Y [of mat4_create t] mult_1_left [of "RotY t"] by (simp add: one_mat4_def)
  then show ?thesis
    using assms
    by (simp add: handleMouseMove_def Let_def mat4_rotate_X times_mat4_def [symmetric])
qed

lemma handleMouseMove_frame:
  assumes "mouseDown s"
  shows "mouseDown (handleMouseMove (x1, y1) s)"
    and "lastMouseX (handleMouseMove (x1, y1) s) = Some x1"
    and "lastMouseY (handleMouseMove (x1, y1) s) = Some y1"
    and "dragSensitivity (handleMouseMove (x1, y1) s) = dragSensitivity s"
  using assms by (simp_all add: handleMouseMove_def Let_def)

text \<open>
  C5. While the mouse is down, a move to \<open>(x1, y1)\<close> replaces the drag rotation by the
  rotation about y by the sensitivity times the move in x, times the rotation about x by
  the sensitivity times the move in y, times the drag rotation so far; two moves in a
  row leave the product of the second increment, the first increment and the drag
  rotation before them.
\<close>

theorem drag_rotation:
  assumes "mouseDown s"
  shows "canvasRotationMatrix (handleMouseMove (x1, y1) s) =
           (RotY (dragSensitivity s * (x1 - ToNumber (lastMouseX s)))
            * RotX (dragSensitivity s * (y1 - ToNumber (lastMouseY s))))
           * canvasRotationMatrix s
         \<and> canvasRotationMatrix (handleMouseMove (x2, y2) (handleMouseMove (x1, y1) s)) =
           ((RotY (dragSensitivity s * (x2 - x1)) * RotX (dragSensitivity s * (y2 - y1)))
            * (RotY (dragSensitivity s * (x1 - ToNumber (lastMouseX s)))
               * RotX (dragSensitivity s * (y1 - ToNumber (lastMouseY s)))))
           * canvasRotationMatrix s"
  using handleMouseMove_rotation [OF assms, of x1 y1]
    handleMouseMove_rotation [OF handleMouseMove_frame(1) [OF assms, of x1 y1], of x2 y2]
    handleMouseMove_frame [OF assms, of x1 y1]
  by (simp add: ToNumber_def mult.assoc)

theorem drag_rotation_witness:
  "mouseDown (handleMouseDown (10, 20) initial_state)
   \<and> canvasRotationMatrix (handleMouseMove (110, 20) (handleMouseDown (10, 20) initial_state))
       = RotY 1 * RotX 0 * mat4_create
   \<and> canvasRotationMatrix
        (handleMouseMove (110, 220) (handleMouseMove (110, 20) (handleMouseDown (10, 20) initial_state)))
       = RotY 0 * RotX 2 * (RotY 1 * RotX 0) * mat4_create"
  using drag_rotation [of "handleMouseDown (10, 20) initial_state" 110 20 110 220]
  by (simp add: handleMouseDown_def initial_state_def ToNumber_def)

section \<open>The normal matrix\<close>

lemma drawCube_normalMatrix_create: "drawCube_normalMatrix mat4_create = mat4_create"
  by (simp add: drawCube_normalMatrix_def mat4_invert_def mat4_create_def)

text \<open>
  C9. A call of \<^verbatim>\<open>drawCube\<close> sends as normal matrix the transposed inverse of the model
  matrix that it finds, and only then computes and sends the model matrix of its own
  cube; so the next call sends the transposed inverse of the model matrix of this call's
  cube. (Of a singular model matrix, which has no inverse, the identity is sent.)
\<close>

theorem normal_matrix_of_previous_call:
  assumes "drawCube vertices w = Some w'" and "drawCube vertices' w' = Some w''"
  shows "uploads uNormalMatrix (effects w') =
           uploads uNormalMatrix (effects w) @ [drawCube_normalMatrix (modelMatrix w)]
         \<and> uploads uModelMatrix (effects w') = uploads uModelMatrix (effects w) @ [modelMatrix w']
         \<and> uploads uNormalMatrix (effects w'') =
           uploads uNormalMatrix (effects w') @ [drawCube_normalMatrix (modelMatrix w')]
         \<and> (\<forall>n. mat4_invert (modelMatrix w') = Some n \<longrightarrow>
               drawCube_normalMatrix (modelMatrix w') = mat4_transpose n
               \<and> modelMatrix w' * n = 1 \<and> n * modelMatrix w' = 1)
         \<and> (mat4_invert (modelMatrix w') = None \<longrightarrow>
               drawCube_normalMatrix (modelMatrix w') = mat4_create)"
proof -
  from assms(1) obtain c where w': "w' = w\<lparr>modelMatrix := drawCube_modelMatrix (state w) c,
              effects := effects w @ drawCube_calls vertices (drawCube_normalMatrix (modelMatrix w))
                 (drawCube_modelMatrix (state w) c) w\<rparr>"
    by (rule drawCube_Some)
  from assms(2) obtain c' where w'': "w'' = w'\<lparr>modelMatrix := drawCube_modelMatrix (state w') c',
              effects := effects w' @ drawCube_calls vertices' (drawCube_normalMatrix (modelMatrix w'))
                 (drawCube_modelMatrix (state w') c') w'\<rparr>"
    by (rule drawCube_Some)
  have 1: "uploads uNormalMatrix (effects w') =
           uploads uNormalMatrix (effects w) @ [drawCube_normalMatrix (modelMatrix w)]"
    and 2: "uploads uModelMatrix (effects w') = uploads uModelMatrix (effects w) @ [modelMatrix w']"
    by (simp_all add: w' uploads_append uploads_drawCube_calls)
  have 3: "uploads uNormalMatrix (effects w'') =
           uploads uNormalMatrix (effects w') @ [drawCube_normalMatrix (modelMatrix w')]"
    by (subst w'') (simp add: uploads_append uploads_drawCube_calls)
  have 4: "drawCube_normalMatrix (modelMatrix w') = mat4_transpose n
           \<and> modelMatrix w' * n = 1 \<and> n * modelMatrix w' = 1"
    if "mat4_invert (modelMatrix w') = Some n" for n
    using that mat4_invert_inverse [OF that] by (simp add: drawCube_normalMatrix_def)
  have 5: "drawCube_normalMatrix (modelMatrix w') = mat4_create"
    if "mat4_invert (modelMatrix w') = None"
    using that by (simp add: drawCube_normalMatrix_def mat4_create_def)
  from 1 2 3 4 5 show ?thesis by blast
qed

text \<open>
  The first call after the start, with the scale 2, sends the identity, which is the
  normal matrix of the identity that it finds, not of the model matrix of its cube; the
  second call sends the normal matrix of that.
\<close>

theorem normal_matrix_of_previous_call_witness:
  "\<exists>w' w''.
      drawCube (createCubeVertices 0 0 (1 / 3) (2 / 3))
        ((initial_world 1)\<lparr>state := initial_state\<lparr>canvasScale := 2\<rparr>\<rparr>) = Some w'
      \<and> drawCube (createCubeVertices 0 0 (1 / 3) (2 / 3)) w' = Some w''
      \<and> uploads uNormalMatrix (effects w') = [mat4_create]
      \<and> uploads uModelMatrix (effects w') = [Scale 2 2 2]
      \<and> uploads uNormalMatrix (effects w'') = [mat4_create, Scale (1 / 2) (1 / 2) (1 / 2)]"
proof -
  let ?vs = "createCubeVertices 0 0 (1 / 3) (2 / 3)"
  let ?w = "(initial_world 1)\<lparr>state := initial_state\<lparr>canvasScale := 2\<rparr>\<rparr>"
  obtain w' where w': "drawCube ?vs ?w = Some w'"
    using drawCube_createCubeVertices by blast
  obtain w'' where w'': "drawCube ?vs w' = Some w''"
    using drawCube_createCubeVertices by blast
  have m: "modelMatrix w' = Scale 2 2 2"
    using w'
    by (simp add: drawCube_cube rounded_center_first_cube drawCube_modelMatrix_def Let_def
          initial_state_def initial_world_def mat4_multiply_def mat4_create_def
          mat4_scale_def mat4_translate_def mat4_rotateX_def mat4_rotateY_def mat4_rotateZ_def
          Scale_def)
       auto
  have n: "drawCube_normalMatrix (Scale 2 2 2) = Scale (1 / 2) (1 / 2) (1 / 2)"
    by (simp add: drawCube_normalMatrix_def mat4_invert_def Scale_def)
  have i: "drawCube_normalMatrix (modelMatrix ?w) = mat4_create" "effects ?w = []"
    by (simp_all add: initial_world_def drawCube_normalMatrix_create)
  from normal_matrix_of_previous_call [OF w' w''] m n i
  have "uploads uNormalMatrix (effects w') = [mat4_create]"
    and "uploads uModelMatrix (effects w') = [Scale 2 2 2]"
    and "uploads uNormalMatrix (effects w'') = [mat4_create, Scale (1 / 2) (1 / 2) (1 / 2)]"
    by simp_all
  with w' w'' show ?thesis by blast
qed

section \<open>The centre that \<^verbatim>\<open>drawCube\<close> turns a cube about\<close>

lemma Math_round_on_grid: "on_grid v \<Longrightarrow> Math_round (v * 10000) / 10000 = v"
proof -
  assume "on_grid v"
  then have v: "v * 10000 = of_int \<lfloor>v * 10000\<rfloor>" unfolding on_grid_def by (rule sym)
  have "\<lfloor>of_int \<lfloor>v * 10000\<rfloor> + (1 / 2 :: real)\<rfloor> = \<lfloor>v * 10000\<rfloor>"
    by (simp add: floor_unique)
  with v have "Math_round (v * 10000) = v * 10000"
    by (simp add: Math_round_def)
  then show ?thesis by simp
qed

lemma rounded_center_on_grid:
  assumes "on_grid (x - s / 2)" "on_grid (x + s / 2)" "on_grid (y - s / 2)" "on_grid (y + s / 2)"
    "on_grid (z - s / 2)" "on_grid (z + s / 2)"
  shows "rounded_center (x, y, z, s) = (x, y, z)"
  unfolding rounded_center_def prod.case
  by (simp only: assms [THEN Math_round_on_grid]) simp

lemma Math_round_add_int: "Math_round (a + of_int k) = Math_round a + of_int k"
proof -
  have "a + of_int k + 1 / 2 = (a + 1 / 2) + of_int k" by simp
  then have "\<lfloor>a + of_int k + 1 / 2\<rfloor> = \<lfloor>(a + 1 / 2) + of_int k\<rfloor>" by (rule arg_cong)
  also have "\<dots> = \<lfloor>a + 1 / 2\<rfloor> + k" by (metis floor_add_int)
  finally show ?thesis unfolding Math_round_def by (simp only: of_int_add)
qed

lemma on_grid_ex: "on_grid v \<longleftrightarrow> (\<exists>n. v * 10000 = of_int n)"
  by (simp add: on_grid_def)

lemma on_grid_Math_round: "on_grid v \<longleftrightarrow> Math_round (v * 10000) = v * 10000"
proof
  assume "on_grid v"
  from Math_round_on_grid [OF this] show "Math_round (v * 10000) = v * 10000" by simp
next
  assume "Math_round (v * 10000) = v * 10000"
  then have "v * 10000 = of_int \<lfloor>v * 10000 + 1 / 2\<rfloor>" by (simp add: Math_round_def)
  then show "on_grid v" unfolding on_grid_ex by (rule exI)
qed

lemma on_grid_add:
  assumes "on_grid a" and "on_grid b"
  shows "on_grid (a + b)"
proof -
  from assms obtain m n where "a * 10000 = of_int m" "b * 10000 = of_int n"
    unfolding on_grid_ex by blast
  then have "(a + b) * 10000 = of_int (m + n)" by (simp add: algebra_simps)
  then show ?thesis unfolding on_grid_ex by (rule exI)
qed

lemma on_grid_0: "on_grid 0"
  by (simp add: on_grid_def)

lemma rounded_pair:
  assumes "on_grid s"
    and "(Math_round ((x - s / 2) * 10000) / 10000 + Math_round ((x + s / 2) * 10000) / 10000) / 2 = x"
  shows "on_grid (x - s / 2) \<and> on_grid (x + s / 2)"
proof -
  from assms(1) obtain k where k: "s * 10000 = of_int k" unfolding on_grid_ex by blast
  have k': "of_int k = s * 10000" by (simp add: k)
  have "(x + s / 2) * 10000 = (x - s / 2) * 10000 + of_int k"
    unfolding k' by (simp add: algebra_simps)
  then have "Math_round ((x + s / 2) * 10000) = Math_round ((x - s / 2) * 10000) + of_int k"
    by (simp only: Math_round_add_int)
  then have b: "Math_round ((x + s / 2) * 10000) = Math_round ((x - s / 2) * 10000) + s * 10000"
    unfolding k' .
  define A where "A = Math_round ((x - s / 2) * 10000)"
  define B where "B = Math_round ((x + s / 2) * 10000)"
  from assms(2) b have "(A / 10000 + B / 10000) / 2 = x" "B = A + s * 10000"
    unfolding A_def B_def by simp_all
  then have "A = (x - s / 2) * 10000" by (simp add: field_simps)
  then have "Math_round ((x - s / 2) * 10000) = (x - s / 2) * 10000" unfolding A_def .
  then have 1: "on_grid (x - s / 2)" by (simp only: on_grid_Math_round)
  have "x - s / 2 + s = x + s / 2" by simp
  with on_grid_add [OF 1 assms(1)] have "on_grid (x + s / 2)" by (simp only:)
  with 1 show ?thesis by simp
qed

lemma rounded_center_iff:
  "rounded_center (x, y, s / 2, s) = (x, y, s / 2) \<longleftrightarrow>
     on_grid (x - s / 2) \<and> on_grid (x + s / 2) \<and> on_grid (y - s / 2) \<and> on_grid (y + s / 2)
     \<and> on_grid (s / 2 - s / 2) \<and> on_grid (s / 2 + s / 2)"
proof
  assume r: "rounded_center (x, y, s / 2, s) = (x, y, s / 2)"
  from r have
    x: "(Math_round ((x - s / 2) * 10000) / 10000 + Math_round ((x + s / 2) * 10000) / 10000) / 2 = x"
    and y: "(Math_round ((y - s / 2) * 10000) / 10000 + Math_round ((y + s / 2) * 10000) / 10000) / 2 = y"
    and z: "(Math_round ((s / 2 + s / 2) * 10000) / 10000
             + Math_round ((s / 2 - s / 2) * 10000) / 10000) / 2 = s / 2"
    unfolding rounded_center_def prod.case prod.inject by blast+
  have h: "(s / 2 + s / 2) * 10000 = s * 10000" "(s / 2 - s / 2) * 10000 = 0" by simp_all
  have m0: "Math_round 0 = 0" by (simp add: Math_round_def)
  from z have "Math_round (s * 10000) = s * 10000" unfolding h m0 by simp
  then have s: "on_grid s" by (simp only: on_grid_Math_round)
  from rounded_pair [OF s x] rounded_pair [OF s y] s
  show "on_grid (x - s / 2) \<and> on_grid (x + s / 2) \<and> on_grid (y - s / 2) \<and> on_grid (y + s / 2)
     \<and> on_grid (s / 2 - s / 2) \<and> on_grid (s / 2 + s / 2)"
    by (simp add: on_grid_0)
next
  assume "on_grid (x - s / 2) \<and> on_grid (x + s / 2) \<and> on_grid (y - s / 2) \<and> on_grid (y + s / 2)
     \<and> on_grid (s / 2 - s / 2) \<and> on_grid (s / 2 + s / 2)"
  then show "rounded_center (x, y, s / 2, s) = (x, y, s / 2)"
    by (intro rounded_center_on_grid) simp_all
qed

lemma carpet_cubes_size:
  "(cx, cy, cz, cs) \<in> set (carpet_cubes x y s n) \<Longrightarrow>
     \<exists>k. 1 \<le> k \<and> int k \<le> max 1 n \<and> cs = s / 3 ^ k \<and> cz = cs / 2"
proof (induction "nat n" arbitrary: n x y s)
  case 0
  then have "\<not> n > 1" by simp
  with 0(2) have "cs = s / 3 ^ 1 \<and> cz = cs / 2"
    by (subst (asm) carpet_cubes_unfold) simp
  then show ?case by (intro exI [of _ 1]) simp
next
  case (Suc m)
  show ?case
  proof (cases "n > 1")
    case False
    with Suc.prems have "cs = s / 3 ^ 1 \<and> cz = cs / 2"
      by (subst (asm) carpet_cubes_unfold) simp
    then show ?thesis by (intro exI [of _ 1]) simp
  next
    case True
    with Suc.hyps(2) have m: "m = nat (n - 1)" by simp
    have IH: "(cx, cy, cz, cs) \<in> set (carpet_cubes x' y' (s / 3) (n - 1)) \<Longrightarrow>
        \<exists>k. 1 \<le> k \<and> int k \<le> max 1 n \<and> cs = s / 3 ^ k \<and> cz = cs / 2" for x' y'
    proof -
      assume "(cx, cy, cz, cs) \<in> set (carpet_cubes x' y' (s / 3) (n - 1))"
      from Suc.hyps(1) [OF m this] obtain k
        where "1 \<le> k" "int k \<le> max 1 (n - 1)" "cs = s / 3 / 3 ^ k" "cz = cs / 2"
        by blast
      with True show ?thesis by (intro exI [of _ "Suc k"]) simp
    qed
    have here: "\<exists>k. 1 \<le> k \<and> int k \<le> max 1 n \<and> s / 3 = s / 3 ^ k"
      using True by (intro exI [of _ 1]) simp
    from Suc.prems True show ?thesis
      by (subst (asm) carpet_cubes_unfold) (use IH here in auto)
  qed
qed

text \<open>
  C10. The centre that \<^verbatim>\<open>drawCube\<close> turns a cube about is the midpoint of the front bottom
  left and the back top right vertex with every coordinate rounded to four decimal
  places, and the model matrix is built about this centre. \<^verbatim>\<open>drawCarpet\<close>, the one caller
  of \<^verbatim>\<open>drawCube\<close>, calls it for the cubes of the carpet, and each of them stands on the
  plane \<open>z = 0\<close>. For such a cube the rounded centre is the centre of the cube exactly when
  every coordinate of the corners is a multiple of \<open>10\<^sup>-\<^sup>4\<close>; it is not the centre for the
  cube with centre \<open>(0, 0, 1/3)\<close> and size \<open>2/3\<close>. The arithmetic is exact here.
\<close>

theorem pivot_is_rounded_midpoint:
  "drawCube_center (createCubeVertices x y z size') = Some (rounded_center (x, y, z, size'))
   \<and> map_option modelMatrix (drawCube (createCubeVertices x y z size') w) =
       Some (case rounded_center (x, y, z, size') of (centerX, centerY, centerZ) \<Rightarrow>
               canvasRotationMatrix (state w)
               * Scale (canvasScale (state w)) (canvasScale (state w)) (canvasScale (state w))
               * Translate centerX centerY centerZ
               * RotX (xRotationAngle (state w)) * RotY (yRotationAngle (state w))
               * RotZ (zRotationAngle (state w))
               * Translate (- centerX) (- centerY) (- centerZ))
   \<and> (on_grid (x - size' / 2) \<and> on_grid (x + size' / 2)
      \<and> on_grid (y - size' / 2) \<and> on_grid (y + size' / 2)
      \<and> on_grid (z - size' / 2) \<and> on_grid (z + size' / 2)
      \<longrightarrow> rounded_center (x, y, z, size') = (x, y, z))
   \<and> drawCarpet x0 y0 size0 iterations w = drawCubes (carpet_cubes x0 y0 size0 iterations) w
   \<and> ((x, y, z, size') \<in> set (carpet_cubes x0 y0 size0 iterations) \<longrightarrow> z = size' / 2)
   \<and> (z = size' / 2 \<longrightarrow>
        (rounded_center (x, y, z, size') = (x, y, z) \<longleftrightarrow>
           on_grid (x - size' / 2) \<and> on_grid (x + size' / 2)
           \<and> on_grid (y - size' / 2) \<and> on_grid (y + size' / 2)
           \<and> on_grid (z - size' / 2) \<and> on_grid (z + size' / 2)))
   \<and> rounded_center (0, 0, 1 / 3, 2 / 3) \<noteq> (0, 0, 1 / 3)"
proof -
  have 1: "on_grid (x - size' / 2) \<and> on_grid (x + size' / 2)
      \<and> on_grid (y - size' / 2) \<and> on_grid (y + size' / 2)
      \<and> on_grid (z - size' / 2) \<and> on_grid (z + size' / 2)
      \<longrightarrow> rounded_center (x, y, z, size') = (x, y, z)"
    using rounded_center_on_grid [of x size' y z] by blast
  have 2: "(x, y, z, size') \<in> set (carpet_cubes x0 y0 size0 iterations) \<longrightarrow> z = size' / 2"
    using carpet_cubes_size [of x y z size' x0 y0 size0 iterations] by blast
  have 3: "z = size' / 2 \<longrightarrow>
        (rounded_center (x, y, z, size') = (x, y, z) \<longleftrightarrow>
           on_grid (x - size' / 2) \<and> on_grid (x + size' / 2)
           \<and> on_grid (y - size' / 2) \<and> on_grid (y + size' / 2)
           \<and> on_grid (z - size' / 2) \<and> on_grid (z + size' / 2))"
    using rounded_center_iff [of x y size'] by blast
  have 4: "drawCube_center (createCubeVertices x y z size') = Some (rounded_center (x, y, z, size'))
   \<and> map_option modelMatrix (drawCube (createCubeVertices x y z size') w) =
       Some (case rounded_center (x, y, z, size') of (centerX, centerY, centerZ) \<Rightarrow>
               canvasRotationMatrix (state w)
               * Scale (canvasScale (state w)) (canvasScale (state w)) (canvasScale (state w))
               * Translate centerX centerY centerZ
               * RotX (xRotationAngle (state w)) * RotY (yRotationAngle (state w))
               * RotZ (zRotationAngle (state w))
               * Translate (- centerX) (- centerY) (- centerZ))
   \<and> drawCarpet x0 y0 size0 iterations w = drawCubes (carpet_cubes x0 y0 size0 iterations) w
   \<and> rounded_center (0, 0, 1 / 3, 2 / 3) \<noteq> (0, 0, 1 / 3)"
    by (simp add: drawCube_center_cube rounded_center_first_cube drawCube_cube
          drawCube_modelMatrix_product drawCarpet_drawCubes split: prod.splits)
  from 1 2 3 4 show ?thesis by blast
qed

text \<open>
  The cube of the carpet on the square with corner \<open>(0, 0)\<close> and size 3: its corners are
  on the grid, and it is turned about its centre.
\<close>

theorem pivot_is_rounded_midpoint_witness:
  "(3 / 2, 3 / 2, 1 / 2, 1) \<in> set (carpet_cubes 0 0 3 1)
   \<and> (1 / 2 :: real) = 1 / 2
   \<and> on_grid (3 / 2 - 1 / 2) \<and> on_grid (3 / 2 + 1 / 2)
   \<and> on_grid (1 / 2 - 1 / 2) \<and> on_grid (1 / 2 + 1 / 2)
   \<and> rounded_center (3 / 2, 3 / 2, 1 / 2, 1) = (3 / 2, 3 / 2, 1 / 2)
   \<and> drawCube_center (createCubeVertices (3 / 2) (3 / 2) (1 / 2) 1) = Some (3 / 2, 3 / 2, 1 / 2)"
proof -
  have m: "(3 / 2, 3 / 2, 1 / 2, 1) \<in> set (carpet_cubes 0 0 3 1)"
    by (simp add: carpet_cubes_unfold [of _ _ _ 1])
  have g: "on_grid (3 / 2 - 1 / 2)" "on_grid (3 / 2 + 1 / 2)"
    "on_grid (1 / 2 - 1 / 2)" "on_grid (1 / 2 + 1 / 2)"
    by (simp_all add: on_grid_def)
  note t = pivot_is_rounded_midpoint [of "3 / 2" "3 / 2" "1 / 2" 1 "initial_world 1" 0 0 3 1]
  from t m g have r: "rounded_center (3 / 2, 3 / 2, 1 / 2, 1) = (3 / 2, 3 / 2, 1 / 2)"
    by simp
  from t have "drawCube_center (createCubeVertices (3 / 2) (3 / 2) (1 / 2) 1)
      = Some (rounded_center (3 / 2, 3 / 2, 1 / 2, 1))" by (rule conjunct1)
  with r m g show ?thesis by simp
qed

section \<open>Further properties\<close>

text \<open>
  X1. \<^verbatim>\<open>drawCarpet\<close> returns, whatever its arguments, and a number of iterations below 1
  does what 1 does.
\<close>

theorem drawCarpet_returns:
  "(\<exists>w'. drawCarpet x y size' iterations w = Some w')
   \<and> (iterations \<le> 1 \<longrightarrow> drawCarpet x y size' iterations w = drawCarpet x y size' 1 w)"
proof -
  have "\<exists>w'. drawCarpet x y size' iterations w = Some w'"
    using drawCubes_Some by (simp add: drawCarpet_drawCubes)
  moreover
  have "drawCarpet x y size' iterations w = drawCarpet x y size' 1 w" if "iterations \<le> 1"
    using that by (simp add: drawCarpet_unfold [of _ _ _ iterations] drawCarpet_unfold [of _ _ _ 1])
  ultimately show ?thesis by blast
qed

theorem drawCarpet_returns_witness:
  "(0::int) \<le> 1
   \<and> (\<exists>w'. drawCarpet (- 1) (- 1) 2 0 (initial_world 0) = Some w')
   \<and> drawCarpet (- 1) (- 1) 2 0 (initial_world 0) = drawCarpet (- 1) (- 1) 2 1 (initial_world 0)"
proof -
  note r = drawCarpet_returns [of "- 1" "- 1" 2 0 "initial_world 0"]
  from r have "\<exists>w'. drawCarpet (- 1) (- 1) 2 0 (initial_world 0) = Some w'" by (rule conjunct1)
  moreover
  from r have "drawCarpet (- 1) (- 1) 2 0 (initial_world 0)
      = drawCarpet (- 1) (- 1) 2 1 (initial_world 0)" by simp
  ultimately show ?thesis by simp
qed

text \<open>X2. A move of the mouse while it is not down changes nothing.\<close>

theorem move_without_drag:
  assumes "\<not> mouseDown s"
  shows "handleMouseMove event s = s"
  using assms by (cases event) (simp add: handleMouseMove_def)

theorem move_without_drag_witness:
  "\<not> mouseDown (handleMouseUp (handleMouseDown (10, 20) initial_state))
   \<and> handleMouseMove (110, 220) (handleMouseUp (handleMouseDown (10, 20) initial_state))
       = handleMouseUp (handleMouseDown (10, 20) initial_state)"
  using move_without_drag [of "handleMouseUp (handleMouseDown (10, 20) initial_state)" "(110, 220)"]
  by (simp add: handleMouseUp_def handleMouseDown_def)

text \<open>
  X3. Every cube of a carpet has the size of the carpet divided by \<open>3\<^sup>k\<close> for a depth \<open>k\<close>
  from 1 to the number of iterations, and stands on the plane \<open>z = 0\<close>: its centre is half
  its size above it.
\<close>

theorem carpet_cube_sizes:
  assumes "(cx, cy, cz, cs) \<in> set (carpet_cubes x y size' iterations)"
  shows "\<exists>k. 1 \<le> k \<and> int k \<le> max 1 iterations \<and> cs = size' / 3 ^ k \<and> cz = cs / 2"
  using assms by (rule carpet_cubes_size)

theorem carpet_cube_sizes_witness:
  "(0, 0, 1 / 3, 2 / 3) \<in> set (carpet_cubes (- 1) (- 1) 2 1)
   \<and> (\<exists>k. 1 \<le> k \<and> int k \<le> max 1 1 \<and> (2 / 3 :: real) = 2 / 3 ^ k \<and> (1 / 3 :: real) = 2 / 3 / 2)"
proof -
  have "(0, 0, 1 / 3, 2 / 3) \<in> set (carpet_cubes (- 1) (- 1) 2 1)"
    by (simp add: carpet_cubes_unfold [of _ _ _ 1])
  with carpet_cube_sizes [OF this] show ?thesis by blast
qed

end
